theory Spec2Isabelle
  imports Main "HOL-Library.Word"
begin

unbundle bit_operations_syntax

section \<open>Fixed-width integers and result codes\<close>

text \<open>
  \<^verbatim>\<open>Core/Types.h\<close> names the fixed-width integers. \<^verbatim>\<open>HRESULT\<close> is the
  32-bit signed result code of the Windows SDK; its macros \<^verbatim>\<open>SUCCEEDED\<close> and
  \<^verbatim>\<open>FAILED\<close> test the sign.
\<close>

type_synonym uint8 = "8 word"
type_synonym uint32 = "32 word"
type_synonym uint64 = "64 word"
type_synonym HRESULT = "32 word"

definition SUCCEEDED :: "HRESULT \<Rightarrow> bool" where
  "SUCCEEDED hr = (0 \<le> sint hr)"

definition FAILED :: "HRESULT \<Rightarrow> bool" where
  "FAILED hr = (sint hr < 0)"

definition S_OK :: HRESULT where
  "S_OK = 0"

definition E_FAIL :: HRESULT where
  "E_FAIL = 0x80004005"

text \<open>
  Wide strings are lists of 16-bit code units; \<open>L\<close> is the wide literal of an
  ASCII text. \<^verbatim>\<open>std::to_string\<close> and \<^verbatim>\<open>std::to_wstring\<close> print a number in
  decimal, \<^verbatim>\<open>std::hex\<close> prints it in lower-case hexadecimal without leading zeros.
\<close>

type_synonym wstring = "16 word list"

definition L :: "string \<Rightarrow> wstring" where
  "L s = map of_char s"

fun to_string :: "nat \<Rightarrow> string" where
  "to_string n =
     (if n < 10 then [''0123456789'' ! n]
      else to_string (n div 10) @ [''0123456789'' ! (n mod 10)])"

fun to_hex :: "nat \<Rightarrow> string" where
  "to_hex n =
     (if n < 16 then [''0123456789abcdef'' ! n]
      else to_hex (n div 16) @ [''0123456789abcdef'' ! (n mod 16)])"

declare to_string.simps [simp del]
declare to_hex.simps [simp del]

definition to_wstring :: "nat \<Rightarrow> wstring" where
  "to_wstring n = L (to_string n)"


section \<open>The data model of \<^verbatim>\<open>ShaderCompiler.h\<close>\<close>

datatype ShaderModel = SM_5_0 | SM_5_1 | SM_6_0 | SM_6_1 | SM_6_2 | SM_6_3 | SM_6_4

text \<open>The enumerators' values: \<^verbatim>\<open>enum class ShaderModel : uint32\<close>, major in the high nibble.\<close>

fun ShaderModel_value :: "ShaderModel \<Rightarrow> uint32" where
  "ShaderModel_value SM_5_0 = 0x50"
| "ShaderModel_value SM_5_1 = 0x51"
| "ShaderModel_value SM_6_0 = 0x60"
| "ShaderModel_value SM_6_1 = 0x61"
| "ShaderModel_value SM_6_2 = 0x62"
| "ShaderModel_value SM_6_3 = 0x63"
| "ShaderModel_value SM_6_4 = 0x64"

text \<open>
  The stage \<^verbatim>\<open>ShaderType::Domain\<close> is \<open>Domain_stage\<close> here: \<open>Domain\<close> is the
  domain of a relation in HOL.
\<close>

datatype ShaderType =
    Vertex | Hull | Domain_stage | Geometry | Pixel | Compute
  | Amplification | Mesh | RayGeneration | Miss | ClosestHit | AnyHit

text \<open>\<^verbatim>\<open>ShaderMacro\<close>: the fields \<^verbatim>\<open>name\<close> and \<^verbatim>\<open>definition\<close>.\<close>

record ShaderMacro =
  macro_name :: string
  macro_definition :: string

record CompileOptions =
  targetModel :: ShaderModel
  macros :: "ShaderMacro list"
  includePaths :: "string list"
  enableDebugInfo :: bool
  enableOptimization :: bool
  warningsAsErrors :: bool
  ieee754Compliance :: bool
  enableUnboundedResourceArrays :: bool
  optimizationLevel :: uint32

text \<open>The default member initialisers of \<^verbatim>\<open>CompileOptions\<close>.\<close>

definition CompileOptions_default :: CompileOptions where
  "CompileOptions_default =
     \<lparr> targetModel = SM_6_4, macros = [], includePaths = [],
       enableDebugInfo = False, enableOptimization = True, warningsAsErrors = False,
       ieee754Compliance = False, enableUnboundedResourceArrays = False,
       optimizationLevel = 3 \<rparr>"

text \<open>
  An element of the input layout (\<^verbatim>\<open>D3D11_INPUT_ELEMENT_DESC\<close> of the Direct3D
  headers) is kept as its semantic name and index.
\<close>

type_synonym D3D11_INPUT_ELEMENT_DESC = "string \<times> uint32"

record CompiledShader =
  bytecode :: "uint8 list"
  disassembly :: string
  errors :: "string list"
  warnings :: "string list"
  success :: bool
  inputLayout :: "D3D11_INPUT_ELEMENT_DESC list"
  constantBufferBindings :: "string \<rightharpoonup> uint32"
  textureBindings :: "string \<rightharpoonup> uint32"
  samplerBindings :: "string \<rightharpoonup> uint32"
  uavBindings :: "string \<rightharpoonup> uint32"

text \<open>A default-constructed \<^verbatim>\<open>CompiledShader result;\<close>.\<close>

definition CompiledShader_default :: CompiledShader where
  "CompiledShader_default =
     \<lparr> bytecode = [], disassembly = [], errors = [], warnings = [], success = False,
       inputLayout = [], constantBufferBindings = Map.empty, textureBindings = Map.empty,
       samplerBindings = Map.empty, uavBindings = Map.empty \<rparr>"

text \<open>\<^verbatim>\<open>ShaderCache::CacheEntry\<close> and the two members of \<^verbatim>\<open>ShaderCache\<close>.\<close>

record CacheEntry =
  entry_bytecode :: "uint8 list"
  entry_hash :: uint64
  entry_timestamp :: uint64

record ShaderCache =
  m_cacheDirectory :: string
  m_memoryCache :: "string \<rightharpoonup> CacheEntry"

text \<open>
  The members of \<^verbatim>\<open>ShaderCompiler\<close>. The three DXC interface pointers are kept
  as \<open>True\<close> for a live interface and \<open>False\<close> for \<^verbatim>\<open>nullptr\<close>.
\<close>

record ShaderCompiler =
  m_dxcUtils :: bool
  m_dxcCompiler :: bool
  m_includeHandler :: bool
  m_useLegacyCompiler :: bool
  m_cache :: ShaderCache
  m_cacheEnabled :: bool
  m_hotReloadEnabled :: bool
  m_fileTimestamps :: "string \<rightharpoonup> uint64"

text \<open>A freshly constructed compiler: the default member initialisers.\<close>

definition ShaderCompiler_new :: ShaderCompiler where
  "ShaderCompiler_new =
     \<lparr> m_dxcUtils = False, m_dxcCompiler = False, m_includeHandler = False,
       m_useLegacyCompiler = False,
       m_cache = \<lparr> m_cacheDirectory = ''cache/shaders/'', m_memoryCache = Map.empty \<rparr>,
       m_cacheEnabled = True, m_hotReloadEnabled = False, m_fileTimestamps = Map.empty \<rparr>"


section \<open>The platform: file system and compiler toolchains\<close>

text \<open>
  A file has its bytes and its last write time. Opening a path can fail although the
  file exists (\<open>unreadable\<close>), creating a file can fail (\<open>unwritable\<close>), and
  \<^verbatim>\<open>std::filesystem::create_directories\<close> can throw (\<open>mkdir_throws\<close>).
  The status of a path can be out of reach (a permission or device error under it): then
  \<^verbatim>\<open>std::filesystem::exists\<close> throws \<^verbatim>\<open>filesystem_error\<close> for it
  (\<open>status_error\<close>); and \<^verbatim>\<open>std::filesystem::last_write_time\<close> can throw for a
  path (\<open>last_write_time_throws\<close>).
  \<open>file_clock\<close> stamps the files written, \<open>system_clock\<close> is
  \<^verbatim>\<open>std::chrono::system_clock::now()\<close> in nanoseconds.
\<close>

record File =
  content :: "uint8 list"
  mtime :: uint64

record FileSystem =
  files :: "string \<rightharpoonup> File"
  unreadable :: "string \<Rightarrow> bool"
  unwritable :: "string \<Rightarrow> bool"
  mkdir_throws :: "string \<Rightarrow> bool"
  status_error :: "string \<Rightarrow> bool"
  last_write_time_throws :: "string \<Rightarrow> bool"
  file_clock :: uint64
  system_clock :: uint64

text \<open>The arguments and the results of \<^verbatim>\<open>D3DCompile\<close> (the legacy compiler).\<close>

record D3DCompileArgs =
  pSrcData :: string
  pSourceName :: "string option"
  pDefines :: "(string \<times> string) list"
  pEntrypoint :: string
  pTarget :: string
  Flags1 :: uint32

record D3DCompileResult =
  d3d_hr :: HRESULT
  d3d_bytecodeBlob :: "uint8 list option"
  d3d_errorBlob :: "string option"

text \<open>
  What \<^verbatim>\<open>IDxcCompiler3::Compile\<close> hands back: its own result code and, through
  \<^verbatim>\<open>IDxcResult\<close>, the compilation status, the object output and the error output.
\<close>

record DxcCompileArgs =
  dxc_source :: wstring
  dxc_arguments :: "wstring list"

record DxcCompileResult =
  dxc_hr :: HRESULT
  dxc_status :: HRESULT
  dxc_object_hr :: HRESULT
  dxc_object :: "uint8 list option"
  dxc_errors_hr :: HRESULT
  dxc_errors :: "string option"

text \<open>
  Everything the code takes from outside the repository is a field of the platform:
  \<^item> \<open>hasher\<close> is \<^verbatim>\<open>std::hash<std::string>\<close> (64-bit \<^verbatim>\<open>size_t\<close>);
  \<^item> \<open>stem\<close> is \<^verbatim>\<open>std::filesystem::path(filename).stem().string()\<close>;
  \<^item> \<open>stack_garbage i\<close> is byte \<open>i\<close> of a local \<^verbatim>\<open>CacheHeader\<close> before anything
    is stored into it (the variable is not initialised);
  \<^item> \<open>resize_throws n\<close> holds when growing the caller's vector to \<open>n\<close> bytes, the
    size read from a cache file, throws (\<^verbatim>\<open>std::bad_alloc\<close> or
    \<^verbatim>\<open>std::length_error\<close>); every other allocation is taken to succeed;
  \<^item> \<open>D3DCompile\<close> is the legacy compiler, \<open>DxcCreateInstance_Utils\<close>,
    \<open>DxcCreateInstance_Compiler\<close> and \<open>CreateDefaultIncludeHandler\<close> are the three
    calls of \<^verbatim>\<open>Initialize\<close>, \<open>Dxc_CreateBlob\<close> and \<open>Dxc_Compile\<close> the two calls
    of a modern compilation;
  \<^item> \<open>MultiByteToWideChar\<close> converts UTF-8 to UTF-16;
  \<^item> \<open>Dxc_throws src = Some what\<close> when a \<^verbatim>\<open>std::exception\<close> with message
    \<open>what\<close> leaves the \<^verbatim>\<open>try\<close> block of the modern path for source \<open>src\<close>.
\<close>

record Env =
  hasher :: "string \<Rightarrow> uint64"
  stem :: "string \<Rightarrow> string"
  stack_garbage :: "nat \<Rightarrow> uint8"
  resize_throws :: "nat \<Rightarrow> bool"
  D3DCompile :: "D3DCompileArgs \<Rightarrow> D3DCompileResult"
  DxcCreateInstance_Utils :: HRESULT
  DxcCreateInstance_Compiler :: HRESULT
  CreateDefaultIncludeHandler :: HRESULT
  MultiByteToWideChar :: "string \<Rightarrow> wstring"
  Dxc_throws :: "string \<Rightarrow> string option"
  Dxc_CreateBlob :: "wstring \<Rightarrow> HRESULT"
  Dxc_Compile :: "DxcCompileArgs \<Rightarrow> DxcCompileResult"

text \<open>\<^verbatim>\<open>Utils::StringToWide\<close> (\<^verbatim>\<open>Core/Utils.cpp\<close>, the Windows branch).\<close>

definition StringToWide :: "Env \<Rightarrow> string \<Rightarrow> wstring" where
  "StringToWide E str = (if str = [] then [] else MultiByteToWideChar E str)"


section \<open>\<^verbatim>\<open>ShaderCache\<close>: the persisted record\<close>

text \<open>
  \<^verbatim>\<open>CACHE_VERSION\<close>, \<^verbatim>\<open>CACHE_MAGIC\<close> (the four characters of \<^verbatim>\<open>XESS\<close>) and
  \<^verbatim>\<open>struct CacheHeader\<close>. The header is written and read as the raw bytes of the
  struct (\<^verbatim>\<open>reinterpret_cast<char*>(&header)\<close>, \<^verbatim>\<open>sizeof(header)\<close>). On the
  x64 target of the project the fields are little-endian, the 64-bit field is 8-byte
  aligned and the struct is padded to 24 bytes: magic at 0, version at 4, hash at 8,
  size at 16, four bytes of padding at 20.
\<close>

definition CACHE_VERSION :: uint32 where
  "CACHE_VERSION = 1"

definition CACHE_MAGIC :: "uint8 list" where
  "CACHE_MAGIC = map of_char ''XESS''"

record CacheHeader =
  header_magic :: "uint8 list"
  header_version :: uint32
  header_hash :: uint64
  header_size :: uint32

definition sizeof_CacheHeader :: nat where
  "sizeof_CacheHeader = 24"

definition le32 :: "uint32 \<Rightarrow> uint8 list" where
  "le32 w = [ucast w, ucast (drop_bit 8 w), ucast (drop_bit 16 w), ucast (drop_bit 24 w)]"

definition rd32 :: "uint8 list \<Rightarrow> uint32" where
  "rd32 bs = ucast (bs ! 0) OR push_bit 8 (ucast (bs ! 1)) OR push_bit 16 (ucast (bs ! 2))
               OR push_bit 24 (ucast (bs ! 3))"

definition le64 :: "uint64 \<Rightarrow> uint8 list" where
  "le64 w = [ucast w, ucast (drop_bit 8 w), ucast (drop_bit 16 w), ucast (drop_bit 24 w),
             ucast (drop_bit 32 w), ucast (drop_bit 40 w), ucast (drop_bit 48 w),
             ucast (drop_bit 56 w)]"

definition rd64 :: "uint8 list \<Rightarrow> uint64" where
  "rd64 bs = ucast (bs ! 0) OR push_bit 8 (ucast (bs ! 1)) OR push_bit 16 (ucast (bs ! 2))
               OR push_bit 24 (ucast (bs ! 3)) OR push_bit 32 (ucast (bs ! 4))
               OR push_bit 40 (ucast (bs ! 5)) OR push_bit 48 (ucast (bs ! 6))
               OR push_bit 56 (ucast (bs ! 7))"

text \<open>
  The bytes of a header in memory; \<open>pad\<close> is what the four padding bytes hold.
  \<open>CacheHeader_of_bytes\<close> reads the fields back from 24 bytes of memory.
\<close>

definition CacheHeader_bytes :: "uint8 list \<Rightarrow> CacheHeader \<Rightarrow> uint8 list" where
  "CacheHeader_bytes pad h =
     take 4 (header_magic h) @ le32 (header_version h) @ le64 (header_hash h)
       @ le32 (header_size h) @ take 4 pad"

definition CacheHeader_of_bytes :: "uint8 list \<Rightarrow> CacheHeader" where
  "CacheHeader_of_bytes bs =
     \<lparr> header_magic = take 4 bs, header_version = rd32 (drop 4 bs),
       header_hash = rd64 (drop 8 bs), header_size = rd32 (drop 16 bs) \<rparr>"

text \<open>
  \<^verbatim>\<open>istream::read(buf, n)\<close> with \<open>n = length buf\<close> on a stream that has \<open>avail\<close>
  bytes left: the bytes that are there are stored, the rest of the buffer keeps what
  it held. \<^verbatim>\<open>vector::resize\<close> cuts or pads with zeros.
\<close>

definition stream_read :: "uint8 list \<Rightarrow> uint8 list \<Rightarrow> uint8 list" where
  "stream_read buf avail = take (length buf) avail @ drop (length avail) buf"

definition resize :: "uint8 list \<Rightarrow> nat \<Rightarrow> uint8 list" where
  "resize v n = take n v @ replicate (n - length v) 0"

text \<open>
  \<^verbatim>\<open>CacheHeader header; file.read(reinterpret_cast<char*>(&header), sizeof(header));\<close>
  on a stream that holds \<open>bytes\<close>: the local is not initialised, so what a short
  file does not fill is whatever the stack held.
\<close>

definition ReadHeader :: "Env \<Rightarrow> uint8 list \<Rightarrow> CacheHeader" where
  "ReadHeader E bytes =
     CacheHeader_of_bytes (stream_read (map (stack_garbage E) [0..<sizeof_CacheHeader]) bytes)"

definition GetCacheFilePath :: "Env \<Rightarrow> ShaderCache \<Rightarrow> string \<Rightarrow> uint64 \<Rightarrow> string" where
  "GetCacheFilePath E c filename hash =
     m_cacheDirectory c @ stem E filename @ ''_'' @ to_hex (unat hash) @ ''.cache''"

text \<open>
  What leaves a function other than its value: a C++ exception that nothing on the way
  catches (\<open>FilesystemError\<close> is \<^verbatim>\<open>std::filesystem::filesystem_error\<close>), or a
  call through a null interface pointer, which is no exception: the process faults.
\<close>

datatype Fault = NullPointerDereference | FilesystemError

text \<open>
  \<^verbatim>\<open>ShaderCache::GetCachedShader\<close>. The result is either the exception that
  leaves the function or the returned flag, the caller's \<^verbatim>\<open>bytecode\<close> vector
  afterwards (the parameter is \<open>bytes\<close> here and in \<open>CacheShader\<close>), and the cache
  afterwards. In the order of the body:
  \<^item> the memory tier;
  \<^item> \<^verbatim>\<open>std::filesystem::exists(cachePath)\<close>, which stands before the
    \<^verbatim>\<open>try\<close>: its exception leaves the function;
  \<^item> inside the \<^verbatim>\<open>try\<close>: the file is opened, the header is read (the result of
    the read is not tested) and compared;
  \<^item> \<^verbatim>\<open>bytecode.resize(header.size)\<close> may throw, which leaves the vector as it was;
    the \<^verbatim>\<open>catch\<close> returns \<open>false\<close>;
  \<^item> the payload is read into the vector. A header read from a file shorter than the
    struct leaves the stream failed, so the payload read stores nothing;
  \<^item> \<^verbatim>\<open>last_write_time(cachePath)\<close> may throw, after the vector was filled and
    before the memory tier is written; the \<^verbatim>\<open>catch\<close> returns \<open>false\<close>.
\<close>

definition GetCachedShader ::
  "Env \<Rightarrow> ShaderCache \<Rightarrow> FileSystem \<Rightarrow> string \<Rightarrow> uint64 \<Rightarrow> uint8 list
     \<Rightarrow> Fault + bool \<times> uint8 list \<times> ShaderCache" where
  "GetCachedShader E c fs filename hash bytes =
     (let disk =
        (let cachePath = GetCacheFilePath E c filename hash in
         if status_error fs cachePath then Inl FilesystemError
         else
           case files fs cachePath of
             None \<Rightarrow> Inr (False, bytes, c)
           | Some file \<Rightarrow>
               if unreadable fs cachePath then Inr (False, bytes, c)
               else
                 let header = ReadHeader E (content file) in
                   if header_magic header \<noteq> CACHE_MAGIC \<or>
                      header_version header \<noteq> CACHE_VERSION \<or>
                      header_hash header \<noteq> hash
                   then Inr (False, bytes, c)
                   else if length bytes < unat (header_size header) \<and>
                           resize_throws E (unat (header_size header))
                   then Inr (False, bytes, c)
                   else
                     let rest = (if sizeof_CacheHeader \<le> length (content file)
                                 then drop sizeof_CacheHeader (content file) else []);
                         bytes' = stream_read (resize bytes (unat (header_size header))) rest;
                         entry = \<lparr> entry_bytecode = bytes', entry_hash = hash,
                                   entry_timestamp = mtime file \<rparr>
                     in if last_write_time_throws fs cachePath then Inr (False, bytes', c)
                        else Inr (True, bytes',
                                  c\<lparr>m_memoryCache := (m_memoryCache c)(filename \<mapsto> entry)\<rparr>))
      in case m_memoryCache c filename of
           None \<Rightarrow> disk
         | Some it \<Rightarrow> if entry_hash it = hash then Inr (True, entry_bytecode it, c) else disk)"

text \<open>
  \<^verbatim>\<open>ShaderCache::CacheShader\<close>. A failure to create the directory or the file
  is logged and nothing is stored, on disk or in memory.
\<close>

definition CacheShader ::
  "Env \<Rightarrow> ShaderCache \<Rightarrow> FileSystem \<Rightarrow> string \<Rightarrow> uint64 \<Rightarrow> uint8 list
     \<Rightarrow> ShaderCache \<times> FileSystem" where
  "CacheShader E c fs filename hash bytes =
     (if mkdir_throws fs (m_cacheDirectory c) then (c, fs)
      else
        let cachePath = GetCacheFilePath E c filename hash in
        if unwritable fs cachePath then (c, fs)
        else
          let header = \<lparr> header_magic = CACHE_MAGIC, header_version = CACHE_VERSION,
                          header_hash = hash, header_size = of_nat (length bytes) \<rparr>;
              written = CacheHeader_bytes (map (stack_garbage E) [20..<sizeof_CacheHeader]) header
                          @ bytes;
              entry = \<lparr> entry_bytecode = bytes, entry_hash = hash,
                        entry_timestamp = system_clock fs \<rparr>
          in (c\<lparr>m_memoryCache := (m_memoryCache c)(filename \<mapsto> entry)\<rparr>,
              fs\<lparr>files := (files fs)(cachePath \<mapsto> \<lparr> content = written, mtime = file_clock fs \<rparr>)\<rparr>))"




section \<open>\<^verbatim>\<open>ShaderCompiler\<close>: initialisation and capability queries\<close>

text \<open>
  \<^verbatim>\<open>ShaderCompiler::Initialize\<close>: the three DXC calls in sequence; any failure
  releases what was created and selects the legacy compiler. It returns \<open>true\<close>
  either way.
\<close>

definition Initialize :: "Env \<Rightarrow> ShaderCompiler \<Rightarrow> bool \<times> ShaderCompiler" where
  "Initialize E sc =
     (if SUCCEEDED (DxcCreateInstance_Utils E) \<and> SUCCEEDED (DxcCreateInstance_Compiler E) \<and>
         SUCCEEDED (CreateDefaultIncludeHandler E)
      then (True, sc\<lparr>m_dxcUtils := True, m_dxcCompiler := True, m_includeHandler := True,
                      m_useLegacyCompiler := False\<rparr>)
      else (True, sc\<lparr>m_useLegacyCompiler := True, m_includeHandler := False,
                      m_dxcCompiler := False, m_dxcUtils := False\<rparr>))"









section \<open>\<^verbatim>\<open>ShaderCompiler\<close>: fingerprint, reflection, target profile, arguments\<close>

text \<open>
  \<^verbatim>\<open>ShaderCompiler::CalculateSourceHash\<close>. The literal \<^verbatim>\<open>0x9e3779b9\<close> is an
  \<^verbatim>\<open>unsigned int\<close>: added to the two flags (an \<^verbatim>\<open>int\<close>) and to the 32-bit
  optimisation level the sum is taken in 32 bits and then widened; added to the 64-bit
  target model and to the 64-bit macro hash it is taken in 64 bits.
\<close>

definition CalculateSourceHash :: "Env \<Rightarrow> string \<Rightarrow> CompileOptions \<Rightarrow> uint64" where
  "CalculateSourceHash E src options =
     (let hash0 = hasher E src;
          hash1 = hash0 XOR (ucast (ShaderModel_value (targetModel options)) + 0x9e3779b9
                              + push_bit 6 hash0 + drop_bit 2 hash0);
          hash2 = hash1 XOR (ucast ((if enableDebugInfo options then 1 else 0) + (0x9e3779b9 :: uint32))
                              + push_bit 6 hash1 + drop_bit 2 hash1);
          hash3 = hash2 XOR (ucast ((if enableOptimization options then 1 else 0) + (0x9e3779b9 :: uint32))
                              + push_bit 6 hash2 + drop_bit 2 hash2);
          hash4 = hash3 XOR (ucast (optimizationLevel options + (0x9e3779b9 :: uint32))
                              + push_bit 6 hash3 + drop_bit 2 hash3)
      in foldl (\<lambda>hash macro.
                  hash XOR (hasher E (macro_name macro @ ''='' @ macro_definition macro) + 0x9e3779b9
                             + push_bit 6 hash + drop_bit 2 hash))
               hash4 (macros options))"

text \<open>\<^verbatim>\<open>ShaderCompiler::ExtractReflectionData\<close>: the five containers are cleared.\<close>

definition ExtractReflectionData :: "uint8 list \<Rightarrow> CompiledShader \<Rightarrow> CompiledShader" where
  "ExtractReflectionData bytes shader =
     shader\<lparr>inputLayout := [], constantBufferBindings := Map.empty, textureBindings := Map.empty,
            samplerBindings := Map.empty, uavBindings := Map.empty\<rparr>"

definition GetTargetProfile :: "ShaderType \<Rightarrow> ShaderModel \<Rightarrow> wstring" where
  "GetTargetProfile ty model =
     (case ty of
        Vertex \<Rightarrow> L ''vs_'' | Hull \<Rightarrow> L ''hs_'' | Domain_stage \<Rightarrow> L ''ds_''
      | Geometry \<Rightarrow> L ''gs_'' | Pixel \<Rightarrow> L ''ps_'' | Compute \<Rightarrow> L ''cs_''
      | _ \<Rightarrow> L ''vs_'')
     @ to_wstring (unat (drop_bit 4 (ShaderModel_value model))) @ L ''_''
     @ to_wstring (unat (ShaderModel_value model AND 0xF))"

definition BuildCompilerArguments :: "CompileOptions \<Rightarrow> wstring list" where
  "BuildCompilerArguments options =
     (if enableDebugInfo options then [L ''-Zi'', L ''-Qembed_debug''] else [])
     @ (if enableOptimization options
        then (if optimizationLevel options = 0 then [L ''-O0'']
              else if optimizationLevel options = 1 then [L ''-O1'']
              else if optimizationLevel options = 2 then [L ''-O2'']
              else if optimizationLevel options = 3 then [L ''-O3'']
              else [])
        else [L ''-Od''])
     @ (if warningsAsErrors options then [L ''-WX''] else [])
     @ (if ieee754Compliance options then [L ''-Gis''] else [])
     @ (if enableUnboundedResourceArrays options
        then [L ''-enable-unbounded-descriptor-tables''] else [])"


section \<open>\<^verbatim>\<open>ShaderCompiler\<close>: the two back ends and \<^verbatim>\<open>CompileFromSource\<close>\<close>

text \<open>
  The code logs nothing about the path a request takes, so the model records it: the
  events of a compilation, in order. \<open>CacheHit\<close> is the hit branch,
  \<open>LegacyBackend\<close> a call of \<^verbatim>\<open>CompileWithLegacyCompiler\<close>, \<open>ModernBackend\<close>
  the DXC branch, \<open>Call_D3DCompile\<close> and \<open>Call_DxcCompile\<close> the calls of the two
  compilers with their arguments, \<open>Reflection\<close> a call of
  \<^verbatim>\<open>ExtractReflectionData\<close> and \<open>CacheStore\<close> a call of \<^verbatim>\<open>CacheShader\<close>.
\<close>

datatype Event =
    CacheHit | LegacyBackend | ModernBackend
  | Call_D3DCompile D3DCompileArgs | Call_DxcCompile DxcCompileArgs
  | Reflection | CacheStore

text \<open>The flag bits of \<^verbatim>\<open>d3dcompiler.h\<close> that the legacy path sets.\<close>

definition D3DCOMPILE_DEBUG :: uint32 where
  "D3DCOMPILE_DEBUG = push_bit 0 1"

definition D3DCOMPILE_SKIP_OPTIMIZATION :: uint32 where
  "D3DCOMPILE_SKIP_OPTIMIZATION = push_bit 2 1"

definition D3DCOMPILE_IEEE_STRICTNESS :: uint32 where
  "D3DCOMPILE_IEEE_STRICTNESS = push_bit 13 1"

definition D3DCOMPILE_OPTIMIZATION_LEVEL3 :: uint32 where
  "D3DCOMPILE_OPTIMIZATION_LEVEL3 = push_bit 15 1"

definition D3DCOMPILE_WARNINGS_ARE_ERRORS :: uint32 where
  "D3DCOMPILE_WARNINGS_ARE_ERRORS = push_bit 18 1"

text \<open>
  \<^verbatim>\<open>ShaderCompiler::CompileWithLegacyCompiler\<close>, in the order of its body: the
  profile from the stage alone (\<open>None\<close> is the \<^verbatim>\<open>default\<close> label), the flags,
  the defines and the call, and the three steps that build the result from what
  \<^verbatim>\<open>D3DCompile\<close> returned.
\<close>

definition LegacyProfile :: "ShaderType \<Rightarrow> string option" where
  "LegacyProfile ty =
     (case ty of
        Vertex \<Rightarrow> Some ''vs_5_0'' | Hull \<Rightarrow> Some ''hs_5_0''
      | Domain_stage \<Rightarrow> Some ''ds_5_0'' | Geometry \<Rightarrow> Some ''gs_5_0''
      | Pixel \<Rightarrow> Some ''ps_5_0'' | Compute \<Rightarrow> Some ''cs_5_0''
      | _ \<Rightarrow> None)"

definition LegacyFlags :: "CompileOptions \<Rightarrow> uint32" where
  "LegacyFlags options =
     (let flags0 = (0 :: uint32);
          flags1 = (if enableDebugInfo options
                    then flags0 OR (D3DCOMPILE_DEBUG OR D3DCOMPILE_SKIP_OPTIMIZATION)
                    else flags0);
          flags2 = (if enableOptimization options \<and> \<not> enableDebugInfo options
                    then flags1 OR D3DCOMPILE_OPTIMIZATION_LEVEL3 else flags1);
          flags3 = (if warningsAsErrors options
                    then flags2 OR D3DCOMPILE_WARNINGS_ARE_ERRORS else flags2)
      in if ieee754Compliance options then flags3 OR D3DCOMPILE_IEEE_STRICTNESS else flags3)"

definition LegacyResult :: "D3DCompileResult \<Rightarrow> CompiledShader" where
  "LegacyResult r =
     (let result = CompiledShader_default;
          result1 = (case d3d_bytecodeBlob r of
                       Some blob \<Rightarrow>
                         if SUCCEEDED (d3d_hr r) then result\<lparr>bytecode := blob, success := True\<rparr>
                         else result
                     | None \<Rightarrow> result);
          result2 = (case d3d_errorBlob r of
                       Some errorText \<Rightarrow>
                         if FAILED (d3d_hr r)
                         then result1\<lparr>errors := errors result1 @ [errorText]\<rparr>
                         else result1\<lparr>warnings := warnings result1 @ [errorText]\<rparr>
                     | None \<Rightarrow> result1)
      in if FAILED (d3d_hr r) \<and> errors result2 = []
         then result2\<lparr>errors := errors result2 @ [''Unknown compilation error'']\<rparr>
         else result2)"

definition CompileWithLegacyCompiler ::
  "Env \<Rightarrow> string \<Rightarrow> string \<Rightarrow> ShaderType \<Rightarrow> CompileOptions \<Rightarrow> string
     \<Rightarrow> CompiledShader \<times> Event list" where
  "CompileWithLegacyCompiler E src entryPoint ty options sourceName =
     (case LegacyProfile ty of
        None \<Rightarrow>
          (CompiledShader_default
             \<lparr>errors := errors CompiledShader_default
                          @ [''Unsupported shader type for legacy compiler'']\<rparr>, [])
      | Some profile \<Rightarrow>
          let defines = map (\<lambda>macro. (macro_name macro, macro_definition macro)) (macros options);
              args = \<lparr> pSrcData = src,
                       pSourceName = (if sourceName = [] then None else Some sourceName),
                       pDefines = defines, pEntrypoint = entryPoint, pTarget = profile,
                       Flags1 = LegacyFlags options \<rparr>
          in (LegacyResult (D3DCompile E args), [Call_D3DCompile args]))"

text \<open>
  The \<^verbatim>\<open>else\<close> branch of \<^verbatim>\<open>CompileFromSource\<close> (the DXC path), up to the end of
  its \<^verbatim>\<open>try\<close> block. \<open>DxcResult\<close> is what the code makes of the value that
  \<^verbatim>\<open>Compile\<close> returned. The early \<^verbatim>\<open>return result\<close> after a failed
  \<^verbatim>\<open>CreateBlob\<close> leaves with \<^verbatim>\<open>success == false\<close>, which is also what the code
  after the block does with such a result, so both leave through the same value here.
\<close>

definition DxcResult :: "DxcCompileResult \<Rightarrow> CompiledShader" where
  "DxcResult r =
     (let result = CompiledShader_default in
      if SUCCEEDED (dxc_hr r)
      then
        let result1 =
              (if SUCCEEDED (dxc_status r)
               then (case dxc_object r of
                       Some blob \<Rightarrow>
                         if SUCCEEDED (dxc_object_hr r)
                         then result\<lparr>bytecode := blob, success := True\<rparr>
                         else result
                     | None \<Rightarrow> result)
               else result)
        in (case dxc_errors r of
              Some errorText \<Rightarrow>
                if SUCCEEDED (dxc_errors_hr r) \<and> 0 < length errorText
                then (if FAILED (dxc_status r)
                      then result1\<lparr>errors := errors result1 @ [errorText]\<rparr>
                      else result1\<lparr>warnings := warnings result1 @ [errorText]\<rparr>)
                else result1
            | None \<Rightarrow> result1)
      else result\<lparr>errors := errors result @ [''DXC compilation failed'']\<rparr>)"

definition CompileWithDXC ::
  "Env \<Rightarrow> ShaderCompiler \<Rightarrow> string \<Rightarrow> string \<Rightarrow> ShaderType \<Rightarrow> CompileOptions \<Rightarrow> string
     \<Rightarrow> Fault + CompiledShader \<times> Event list" where
  "CompileWithDXC E sc src entryPoint ty options sourceName =
     (let result = CompiledShader_default in
      case Dxc_throws E src of
        Some what \<Rightarrow>
          Inr (result\<lparr>errors := errors result @ [''Exception during compilation: '' @ what]\<rparr>, [])
      | None \<Rightarrow>
          let wSource = StringToWide E src;
              wEntryPoint = StringToWide E entryPoint;
              targetProfile = GetTargetProfile ty (targetModel options)
          in
            if \<not> m_dxcUtils sc then Inl NullPointerDereference
            else if FAILED (Dxc_CreateBlob E wSource)
            then Inr (result\<lparr>errors := errors result @ [''Failed to create source blob'']\<rparr>, [])
            else
              let arguments = BuildCompilerArguments options
                                @ [L ''-E'', wEntryPoint, L ''-T'', targetProfile];
                  args = \<lparr> dxc_source = wSource, dxc_arguments = arguments \<rparr>
              in
                if \<not> m_dxcCompiler sc then Inl NullPointerDereference
                else Inr (DxcResult (Dxc_Compile E args), [Call_DxcCompile args]))"

text \<open>
  What a compilation leaves behind: the returned \<^verbatim>\<open>CompiledShader\<close>, the compiler
  object (its cache may have changed), the file system, and the events.
\<close>

record CompileOutcome =
  result :: CompiledShader
  compiler :: ShaderCompiler
  filesystem :: FileSystem
  trace :: "Event list"

text \<open>
  \<^verbatim>\<open>ShaderCompiler::CompileFromSource\<close>, in its three parts: the cache lookup at
  its head (the flag, the cached bytes and the cache afterwards), the choice of the back
  end, and the treatment of the result. The lookup stands in no \<^verbatim>\<open>try\<close> block:
  an exception of \<^verbatim>\<open>GetCachedShader\<close> leaves \<^verbatim>\<open>CompileFromSource\<close>.
\<close>

definition CacheLookup ::
  "Env \<Rightarrow> ShaderCompiler \<Rightarrow> FileSystem \<Rightarrow> string \<Rightarrow> CompileOptions \<Rightarrow> string
     \<Rightarrow> Fault + bool \<times> uint8 list \<times> ShaderCache" where
  "CacheLookup E sc fs src options sourceName =
     (if m_cacheEnabled sc \<and> sourceName \<noteq> []
      then GetCachedShader E (m_cache sc) fs sourceName (CalculateSourceHash E src options) []
      else Inr (False, [], m_cache sc))"

definition InvokeBackend ::
  "Env \<Rightarrow> ShaderCompiler \<Rightarrow> string \<Rightarrow> string \<Rightarrow> ShaderType \<Rightarrow> CompileOptions \<Rightarrow> string
     \<Rightarrow> Fault + CompiledShader \<times> Event list" where
  "InvokeBackend E sc src entryPoint ty options sourceName =
     (if m_useLegacyCompiler sc \<or>
         ShaderModel_value (targetModel options) \<le> ShaderModel_value SM_5_1
      then (case CompileWithLegacyCompiler E src entryPoint ty options sourceName of
              (r, evs) \<Rightarrow> Inr (r, LegacyBackend # evs))
      else (case CompileWithDXC E sc src entryPoint ty options sourceName of
              Inl fault \<Rightarrow> Inl fault
            | Inr (r, evs) \<Rightarrow> Inr (r, ModernBackend # evs)))"

definition CompileFromSource ::
  "Env \<Rightarrow> ShaderCompiler \<Rightarrow> FileSystem \<Rightarrow> string \<Rightarrow> string \<Rightarrow> ShaderType \<Rightarrow> CompileOptions
     \<Rightarrow> string \<Rightarrow> Fault + CompileOutcome" where
  "CompileFromSource E sc fs src entryPoint ty options sourceName =
     (case CacheLookup E sc fs src options sourceName of
        Inl fault \<Rightarrow> Inl fault
      | Inr (hit, cachedBytecode, cache1) \<Rightarrow>
          if hit
          then
            Inr \<lparr> result = ExtractReflectionData cachedBytecode
                             (CompiledShader_default\<lparr>bytecode := cachedBytecode, success := True\<rparr>),
                  compiler = sc\<lparr>m_cache := cache1\<rparr>, filesystem = fs,
                  trace = [CacheHit, Reflection] \<rparr>
          else
            (case InvokeBackend E sc src entryPoint ty options sourceName of
               Inl fault \<Rightarrow> Inl fault
             | Inr (r, evs) \<Rightarrow>
                 if success r
                 then
                   let r' = ExtractReflectionData (bytecode r) r in
                   if m_cacheEnabled sc \<and> sourceName \<noteq> []
                   then
                     (case CacheShader E cache1 fs sourceName (CalculateSourceHash E src options)
                             (bytecode r') of
                        (cache2, fs2) \<Rightarrow>
                          Inr \<lparr> result = r', compiler = sc\<lparr>m_cache := cache2\<rparr>, filesystem = fs2,
                                trace = evs @ [Reflection, CacheStore] \<rparr>)
                   else
                     Inr \<lparr> result = r', compiler = sc\<lparr>m_cache := cache1\<rparr>, filesystem = fs,
                           trace = evs @ [Reflection] \<rparr>
                 else
                   Inr \<lparr> result = r, compiler = sc\<lparr>m_cache := cache1\<rparr>, filesystem = fs,
                         trace = evs \<rparr>))"

text \<open>
  \<^verbatim>\<open>ShaderCompiler::LoadShaderSource\<close> and \<^verbatim>\<open>CompileFromFile\<close>. A file that
  cannot be opened reads as the empty text, and so does an empty file.
\<close>

definition LoadShaderSource :: "FileSystem \<Rightarrow> string \<Rightarrow> string" where
  "LoadShaderSource fs filename =
     (case files fs filename of
        None \<Rightarrow> []
      | Some file \<Rightarrow>
          if unreadable fs filename then [] else map (\<lambda>b. char_of (unat b)) (content file))"

definition CompileFromFile ::
  "Env \<Rightarrow> ShaderCompiler \<Rightarrow> FileSystem \<Rightarrow> string \<Rightarrow> string \<Rightarrow> ShaderType \<Rightarrow> CompileOptions
     \<Rightarrow> Fault + CompileOutcome" where
  "CompileFromFile E sc fs filename entryPoint ty options =
     (let src = LoadShaderSource fs filename in
      if src = []
      then Inr \<lparr> result = CompiledShader_default
                     \<lparr>errors := errors CompiledShader_default
                                  @ [''Failed to load shader file: '' @ filename]\<rparr>,
                 compiler = sc, filesystem = fs, trace = [] \<rparr>
      else CompileFromSource E sc fs src entryPoint ty options filename)"


section \<open>The life of a \<^verbatim>\<open>ShaderCompiler\<close> object\<close>





section \<open>\<^verbatim>\<open>Shader\<close>: loading and hot reload\<close>

text \<open>
  \<^verbatim>\<open>CompiledD3DShader\<close> wraps the compilation result (its Direct3D objects and its
  binding lists play no part in loading); \<^verbatim>\<open>IsValid\<close> is the success flag.
  The members of \<^verbatim>\<open>Shader\<close> that loading reads or writes follow; its
  \<^verbatim>\<open>m_hotReloadEnabled\<close> is \<open>m_hotReloadEnabled_S\<close> here, as the compiler has a
  member of the same name.
\<close>

record CompiledD3DShader =
  compilationResult :: CompiledShader

definition IsValid :: "CompiledD3DShader \<Rightarrow> bool" where
  "IsValid s = success (compilationResult s)"

record Shader =
  m_type :: ShaderType
  m_shader :: "CompiledD3DShader option"
  m_sourceFile :: string
  m_sourceCode :: string
  m_entryPoint :: string
  m_compileOptions :: CompileOptions
  m_lastFileTime :: uint64
  m_hotReloadEnabled_S :: bool
  m_isLoading :: bool

text \<open>
  \<^verbatim>\<open>Shader::CompileShader\<close> hands the request to \<^verbatim>\<open>ShaderManager::CompileShader\<close>,
  whose body is not part of the sources at hand. It is a parameter: from the manager's
  state and the request to the manager's new state and either the message of an
  exception (\<open>Inl\<close>) or the returned pointer (\<open>Inr\<close>, \<open>None\<close> for null).
\<close>

type_synonym 'm ManagerCompile =
  "'m \<Rightarrow> string \<Rightarrow> string \<Rightarrow> ShaderType \<Rightarrow> CompileOptions \<Rightarrow> string
     \<Rightarrow> (string + CompiledD3DShader option) \<times> 'm"

text \<open>
  \<^verbatim>\<open>Shader::GetFileTime\<close>: the last write time; 0 for a file that is not there, and
  0 when \<^verbatim>\<open>exists\<close> or \<^verbatim>\<open>last_write_time\<close> throws (\<^verbatim>\<open>catch (...)\<close>).
\<close>

definition GetFileTime :: "FileSystem \<Rightarrow> string \<Rightarrow> uint64" where
  "GetFileTime fs filename =
     (if status_error fs filename then 0
      else case files fs filename of
             Some file \<Rightarrow> if last_write_time_throws fs filename then 0 else mtime file
           | None \<Rightarrow> 0)"

text \<open>
  \<^verbatim>\<open>Shader::LoadFromFile\<close>: the returned flag, the shader and the manager
  afterwards. \<^verbatim>\<open>m_lastFileTime\<close> is assigned in the success branch only.
\<close>

definition LoadFromFile ::
  "'m ManagerCompile \<Rightarrow> Shader \<Rightarrow> 'm \<Rightarrow> FileSystem \<Rightarrow> string \<Rightarrow> string \<Rightarrow> ShaderType
     \<Rightarrow> CompileOptions \<Rightarrow> bool \<times> Shader \<times> 'm" where
  "LoadFromFile M sh mgr fs filename entryPoint ty options =
     (let sh1 = sh\<lparr>m_sourceFile := filename, m_entryPoint := entryPoint, m_type := ty,
                   m_compileOptions := options\<rparr> in
      case files fs filename of
        None \<Rightarrow> (False, sh1, mgr)
      | Some file \<Rightarrow>
          if unreadable fs filename then (False, sh1, mgr)
          else
            let sh2 = sh1\<lparr>m_sourceCode := map (\<lambda>b. char_of (unat b)) (content file)\<rparr> in
            (case M mgr (m_sourceCode sh2) entryPoint ty options filename of
               (Inl what, mgr') \<Rightarrow> (False, sh2, mgr')
             | (Inr compiled, mgr') \<Rightarrow>
                 let sh3 = sh2\<lparr>m_shader := compiled\<rparr> in
                 if (case m_shader sh3 of Some s \<Rightarrow> IsValid s | None \<Rightarrow> False)
                 then (True, sh3\<lparr>m_lastFileTime := GetFileTime fs filename\<rparr>, mgr')
                 else (False, sh3, mgr')))"

text \<open>
  \<^verbatim>\<open>Shader::CheckForReload\<close>, with the lines it logs: \<open>Log_HotReloading\<close> when it
  reloads, then the outcome.
\<close>

datatype LogLine = Log_HotReloading | Log_HotReloadSuccessful | Log_HotReloadFailed

definition CheckForReload ::
  "'m ManagerCompile \<Rightarrow> Shader \<Rightarrow> 'm \<Rightarrow> FileSystem \<Rightarrow> Shader \<times> 'm \<times> LogLine list" where
  "CheckForReload M sh mgr fs =
     (if \<not> m_hotReloadEnabled_S sh \<or> m_sourceFile sh = [] then (sh, mgr, [])
      else
        let currentFileTime = GetFileTime fs (m_sourceFile sh) in
        if m_lastFileTime sh < currentFileTime
        then
          (case LoadFromFile M sh mgr fs (m_sourceFile sh) (m_entryPoint sh) (m_type sh)
                  (m_compileOptions sh) of
             (ok, sh', mgr') \<Rightarrow>
               (sh', mgr', [Log_HotReloading,
                            if ok then Log_HotReloadSuccessful else Log_HotReloadFailed]))
        else (sh, mgr, []))"


section \<open>Example platforms, requests and files\<close>

text \<open>Concrete values on which the theorems below are run.\<close>

definition Env_dxc :: Env where
  "Env_dxc =
     \<lparr> hasher = (\<lambda>s. of_nat (length s)), stem = id, stack_garbage = (\<lambda>i. 0),
       resize_throws = (\<lambda>n. False),
       D3DCompile = (\<lambda>args. \<lparr> d3d_hr = S_OK, d3d_bytecodeBlob = Some [1, 2, 3],
                                 d3d_errorBlob = None \<rparr>),
       DxcCreateInstance_Utils = S_OK, DxcCreateInstance_Compiler = S_OK,
       CreateDefaultIncludeHandler = S_OK,
       MultiByteToWideChar = L, Dxc_throws = (\<lambda>src. None), Dxc_CreateBlob = (\<lambda>w. S_OK),
       Dxc_Compile = (\<lambda>args. \<lparr> dxc_hr = S_OK, dxc_status = S_OK, dxc_object_hr = S_OK,
                                  dxc_object = Some [4, 5, 6], dxc_errors_hr = S_OK,
                                  dxc_errors = None \<rparr>) \<rparr>"

definition Env_no_dxc :: Env where
  "Env_no_dxc = Env_dxc\<lparr>DxcCreateInstance_Utils := E_FAIL\<rparr>"

definition fs_empty :: FileSystem where
  "fs_empty =
     \<lparr> files = Map.empty, unreadable = (\<lambda>p. False), unwritable = (\<lambda>p. False),
       mkdir_throws = (\<lambda>p. False), status_error = (\<lambda>p. False),
       last_write_time_throws = (\<lambda>p. False), file_clock = 100, system_clock = 1000 \<rparr>"

definition red_pixel_shader :: string where
  "red_pixel_shader = ''float4 main(): SV_Target { return float4(1,0,0,1); }''"

definition stored_record :: "uint8 list" where
  "stored_record =
     [0x58, 0x45, 0x53, 0x53,  1, 0, 0, 0,  7, 0, 0, 0, 0, 0, 0, 0,  3, 0, 0, 0,  0, 0, 0, 0,
      0xAA, 0xBB, 0xCC]"

definition fs_with_record :: "uint8 list \<Rightarrow> FileSystem" where
  "fs_with_record bytes =
     fs_empty\<lparr>files :=
       [GetCacheFilePath Env_dxc (m_cache ShaderCompiler_new) ''red.hlsl'' 7
          \<mapsto> \<lparr> content = bytes, mtime = 5 \<rparr>]\<rparr>"


definition cbuffer_vertex_shader :: string where
  "cbuffer_vertex_shader =
     ''cbuffer Params : register(b0) { float4x4 mvp; }; float4 main(float4 pos : POSITION) : SV_Position { return mul(mvp, pos); }''"

definition Env_rejecting :: Env where
  "Env_rejecting =
     Env_no_dxc\<lparr>D3DCompile := (\<lambda>args. \<lparr> d3d_hr = E_FAIL, d3d_bytecodeBlob = None,
                                           d3d_errorBlob = Some ''error X3000: syntax error'' \<rparr>)\<rparr>"


definition two_stage_shader :: string where
  "two_stage_shader =
     ''float4 VSMain(float4 p : POSITION) : SV_Position { return p; } float4 PSMain() : SV_Target { return 1; }''"

definition Env_by_profile :: Env where
  "Env_by_profile =
     Env_no_dxc\<lparr>D3DCompile := (\<lambda>args. \<lparr> d3d_hr = S_OK,
                                           d3d_bytecodeBlob = Some (map of_char (pTarget args)),
                                           d3d_errorBlob = None \<rparr>)\<rparr>"

definition Manager_failing :: "nat ManagerCompile" where
  "Manager_failing n src entryPoint ty options sourceName =
     (Inr (Some \<lparr> compilationResult =
                    CompiledShader_default\<lparr>errors := [''error X3000: syntax error'']\<rparr> \<rparr>),
      Suc n)"

definition Manager_compiling :: "nat ManagerCompile" where
  "Manager_compiling n src entryPoint ty options sourceName =
     (Inr (Some \<lparr> compilationResult =
                    CompiledShader_default\<lparr>bytecode := [1, 2, 3], success := True\<rparr> \<rparr>),
      Suc n)"

definition fs_edited :: FileSystem where
  "fs_edited = fs_empty\<lparr>files := [''fx.hlsl'' \<mapsto> \<lparr> content = [0x2F, 0x2F], mtime = 20 \<rparr>]\<rparr>"

definition watched_shader :: Shader where
  "watched_shader =
     \<lparr> m_type = Pixel, m_shader = None, m_sourceFile = ''fx.hlsl'', m_sourceCode = [],
       m_entryPoint = ''PSMain'', m_compileOptions = CompileOptions_default,
       m_lastFileTime = 10, m_hotReloadEnabled_S = True, m_isLoading = False \<rparr>"



text \<open>
  A platform on which the stack slot of the local header still holds the header of an
  earlier lookup of the record \<open>stored_record\<close>, and a file system whose status
  queries fail.
\<close>

definition Env_stale_header :: Env where
  "Env_stale_header = Env_dxc\<lparr>stack_garbage := (\<lambda>i. stored_record ! i)\<rparr>"



section \<open>Properties\<close>

subsection \<open>Result codes, the paths of a compilation and their events\<close>

lemma SUCCEEDED_S_OK [simp]: "SUCCEEDED S_OK"
  by (simp add: SUCCEEDED_def S_OK_def)

lemma FAILED_S_OK [simp]: "\<not> FAILED S_OK"
  by (simp add: FAILED_def S_OK_def)

lemma SUCCEEDED_E_FAIL [simp]: "\<not> SUCCEEDED E_FAIL"
  by (simp add: SUCCEEDED_def E_FAIL_def)

lemma FAILED_E_FAIL [simp]: "FAILED E_FAIL"
  by (simp add: FAILED_def E_FAIL_def)


lemma GetCachedShader_miss:
  "GetCachedShader E c fs filename hash bytes = Inr (False, bytes', c') \<Longrightarrow> c' = c"
  by (auto simp add: GetCachedShader_def Let_def split: option.splits if_splits)

lemma GetCachedShader_throws:
  "(GetCachedShader E c fs filename hash bytes = Inl fault) =
     (fault = FilesystemError \<and>
      (case m_memoryCache c filename of None \<Rightarrow> True | Some it \<Rightarrow> entry_hash it \<noteq> hash) \<and>
      status_error fs (GetCacheFilePath E c filename hash))"
  by (auto simp add: GetCachedShader_def Let_def split: option.splits if_splits)

lemma CacheLookup_miss:
  "CacheLookup E sc fs src options sourceName = Inr (False, bytes, c) \<Longrightarrow> c = m_cache sc"
  by (auto simp add: CacheLookup_def dest: GetCachedShader_miss split: if_splits)

lemma CacheLookup_throws:
  "(CacheLookup E sc fs src options sourceName = Inl fault) =
     (fault = FilesystemError \<and> m_cacheEnabled sc \<and> sourceName \<noteq> [] \<and>
      (case m_memoryCache (m_cache sc) sourceName of
         None \<Rightarrow> True
       | Some it \<Rightarrow> entry_hash it \<noteq> CalculateSourceHash E src options) \<and>
      status_error fs (GetCacheFilePath E (m_cache sc) sourceName (CalculateSourceHash E src options)))"
  by (simp add: CacheLookup_def GetCachedShader_throws)

lemma CacheLookup_returns:
  assumes "\<not> status_error fs (GetCacheFilePath E (m_cache sc) sourceName
                                 (CalculateSourceHash E src options))"
  shows "\<exists>h bytes c. CacheLookup E sc fs src options sourceName = Inr (h, bytes, c)"
proof (cases "CacheLookup E sc fs src options sourceName")
  case (Inl fault)
  with assms show ?thesis by (simp add: CacheLookup_throws)
next
  case (Inr p)
  then show ?thesis by (cases p) simp
qed

lemma ExtractReflectionData_fields [simp]:
  "success (ExtractReflectionData bytes shader) = success shader"
  "bytecode (ExtractReflectionData bytes shader) = bytecode shader"
  "errors (ExtractReflectionData bytes shader) = errors shader"
  "warnings (ExtractReflectionData bytes shader) = warnings shader"
  "inputLayout (ExtractReflectionData bytes shader) = []"
  "constantBufferBindings (ExtractReflectionData bytes shader) = Map.empty"
  "textureBindings (ExtractReflectionData bytes shader) = Map.empty"
  "samplerBindings (ExtractReflectionData bytes shader) = Map.empty"
  "uavBindings (ExtractReflectionData bytes shader) = Map.empty"
  by (simp_all add: ExtractReflectionData_def)

text \<open>The six ways through \<^verbatim>\<open>CompileFromSource\<close>.\<close>

lemma CompileFromSource_cases [case_names thrown hit fault failed stored uncached]:
  obtains
    (thrown) fault where
      "CacheLookup E sc fs src options sourceName = Inl fault"
      "CompileFromSource E sc fs src entryPoint ty options sourceName = Inl fault"
  | (hit) bytes c1 where
      "CacheLookup E sc fs src options sourceName = Inr (True, bytes, c1)"
      "CompileFromSource E sc fs src entryPoint ty options sourceName =
         Inr \<lparr> result = ExtractReflectionData bytes
                          (CompiledShader_default\<lparr>bytecode := bytes, success := True\<rparr>),
               compiler = sc\<lparr>m_cache := c1\<rparr>, filesystem = fs, trace = [CacheHit, Reflection] \<rparr>"
  | (fault) fault bytes where
      "CacheLookup E sc fs src options sourceName = Inr (False, bytes, m_cache sc)"
      "InvokeBackend E sc src entryPoint ty options sourceName = Inl fault"
      "CompileFromSource E sc fs src entryPoint ty options sourceName = Inl fault"
  | (failed) r evs bytes where
      "CacheLookup E sc fs src options sourceName = Inr (False, bytes, m_cache sc)"
      "InvokeBackend E sc src entryPoint ty options sourceName = Inr (r, evs)"
      "\<not> success r"
      "CompileFromSource E sc fs src entryPoint ty options sourceName =
         Inr \<lparr> result = r, compiler = sc, filesystem = fs, trace = evs \<rparr>"
  | (stored) r evs c2 fs2 bytes where
      "CacheLookup E sc fs src options sourceName = Inr (False, bytes, m_cache sc)"
      "InvokeBackend E sc src entryPoint ty options sourceName = Inr (r, evs)"
      "success r" "m_cacheEnabled sc" "sourceName \<noteq> []"
      "CacheShader E (m_cache sc) fs sourceName (CalculateSourceHash E src options) (bytecode r)
         = (c2, fs2)"
      "CompileFromSource E sc fs src entryPoint ty options sourceName =
         Inr \<lparr> result = ExtractReflectionData (bytecode r) r, compiler = sc\<lparr>m_cache := c2\<rparr>,
               filesystem = fs2, trace = evs @ [Reflection, CacheStore] \<rparr>"
  | (uncached) r evs bytes where
      "CacheLookup E sc fs src options sourceName = Inr (False, bytes, m_cache sc)"
      "InvokeBackend E sc src entryPoint ty options sourceName = Inr (r, evs)"
      "success r" "\<not> (m_cacheEnabled sc \<and> sourceName \<noteq> [])"
      "CompileFromSource E sc fs src entryPoint ty options sourceName =
         Inr \<lparr> result = ExtractReflectionData (bytecode r) r, compiler = sc,
               filesystem = fs, trace = evs @ [Reflection] \<rparr>"
proof (cases "CacheLookup E sc fs src options sourceName")
  case (Inl f)
  then show thesis
    by (intro thrown [of f]) (simp_all add: CompileFromSource_def)
next
  case (Inr p)
  obtain h bytes c1 where p: "p = (h, bytes, c1)"
    using prod_cases3 by blast
  from Inr p have lookup: "CacheLookup E sc fs src options sourceName = Inr (h, bytes, c1)"
    by simp
  show thesis
  proof (cases h)
    case True
    with lookup show thesis
      by (intro hit [of bytes c1]) (simp_all add: CompileFromSource_def)
  next
    case False
    with lookup have c1: "c1 = m_cache sc" by (simp add: CacheLookup_miss)
    have unchanged: "sc\<lparr>m_cache := m_cache sc\<rparr> = sc" by simp
    show thesis
    proof (cases "InvokeBackend E sc src entryPoint ty options sourceName")
      case (Inl f)
      with lookup False c1 show thesis
        by (intro fault [of bytes f]) (simp_all add: CompileFromSource_def)
    next
      case backend: (Inr q)
      obtain r evs where q: "q = (r, evs)" by fastforce
      show thesis
      proof (cases "success r")
        case no: False
        with lookup False backend q c1 show thesis
          by (intro failed [of bytes r evs]) (simp_all add: CompileFromSource_def)
      next
        case yes: True
        show thesis
        proof (cases "m_cacheEnabled sc \<and> sourceName \<noteq> []")
          case off: False
          with lookup False backend q c1 yes show thesis
            by (intro uncached [of bytes r evs]) (auto simp add: CompileFromSource_def Let_def)
        next
          case on: True
          obtain c2 fs2 where store:
            "CacheShader E (m_cache sc) fs sourceName (CalculateSourceHash E src options) (bytecode r)
               = (c2, fs2)"
            by fastforce
          with lookup False backend q c1 yes on show thesis
            by (intro stored [of bytes r evs c2 fs2]) (simp_all add: CompileFromSource_def Let_def)
        qed
      qed
    qed
  qed
qed


lemma LegacyResult_fields:
  "inputLayout (LegacyResult r) = []"
  "constantBufferBindings (LegacyResult r) = Map.empty"
  "textureBindings (LegacyResult r) = Map.empty"
  "samplerBindings (LegacyResult r) = Map.empty"
  "uavBindings (LegacyResult r) = Map.empty"
  "success (LegacyResult r) = (SUCCEEDED (d3d_hr r) \<and> d3d_bytecodeBlob r \<noteq> None)"
  by (simp_all add: LegacyResult_def CompiledShader_default_def Let_def split: option.splits)


lemma DxcResult_fields:
  "inputLayout (DxcResult r) = []"
  "constantBufferBindings (DxcResult r) = Map.empty"
  "textureBindings (DxcResult r) = Map.empty"
  "samplerBindings (DxcResult r) = Map.empty"
  "uavBindings (DxcResult r) = Map.empty"
  by (simp_all add: DxcResult_def CompiledShader_default_def Let_def split: option.splits)

lemma CompileWithLegacyCompiler_trace:
  "snd (CompileWithLegacyCompiler E src entryPoint ty options sourceName) = [] \<or>
   (\<exists>args. snd (CompileWithLegacyCompiler E src entryPoint ty options sourceName) = [Call_D3DCompile args])"
  by (simp add: CompileWithLegacyCompiler_def Let_def split: option.splits)

lemma CompileWithDXC_trace:
  "CompileWithDXC E sc src entryPoint ty options sourceName = Inr (r, evs) \<Longrightarrow>
     evs = [] \<or> (\<exists>args. evs = [Call_DxcCompile args])"
  by (auto simp add: CompileWithDXC_def Let_def split: option.splits if_splits)

lemma CompileWithDXC_legacy_free:
  "m_dxcUtils sc \<Longrightarrow> m_dxcCompiler sc \<Longrightarrow>
     \<exists>r. CompileWithDXC E sc src entryPoint ty options sourceName = Inr r"
  unfolding CompileWithDXC_def
  by (auto simp add: Let_def split: option.splits)

lemma InvokeBackend_trace:
  assumes "InvokeBackend E sc src entryPoint ty options sourceName = Inr (r, evs)"
  shows "CacheHit \<notin> set evs" and "Reflection \<notin> set evs" and "CacheStore \<notin> set evs"
    and "(LegacyBackend \<in> set evs) =
           (m_useLegacyCompiler sc \<or> ShaderModel_value (targetModel options) \<le> ShaderModel_value SM_5_1)"
    and "(ModernBackend \<in> set evs) =
           (\<not> (m_useLegacyCompiler sc \<or> ShaderModel_value (targetModel options) \<le> ShaderModel_value SM_5_1))"
proof -
  consider (legacy) "m_useLegacyCompiler sc \<or> ShaderModel_value (targetModel options) \<le> ShaderModel_value SM_5_1"
      "evs = LegacyBackend # snd (CompileWithLegacyCompiler E src entryPoint ty options sourceName)"
    | (modern) r' evs' where "\<not> (m_useLegacyCompiler sc \<or> ShaderModel_value (targetModel options) \<le> ShaderModel_value SM_5_1)"
      "CompileWithDXC E sc src entryPoint ty options sourceName = Inr (r', evs')" "evs = ModernBackend # evs'"
    using assms by (auto simp add: InvokeBackend_def split: if_splits sum.splits prod.splits)
  then have "CacheHit \<notin> set evs \<and> Reflection \<notin> set evs \<and> CacheStore \<notin> set evs \<and>
      (LegacyBackend \<in> set evs) =
           (m_useLegacyCompiler sc \<or> ShaderModel_value (targetModel options) \<le> ShaderModel_value SM_5_1) \<and>
      (ModernBackend \<in> set evs) =
           (\<not> (m_useLegacyCompiler sc \<or> ShaderModel_value (targetModel options) \<le> ShaderModel_value SM_5_1))"
  proof cases
    case legacy
    with CompileWithLegacyCompiler_trace [of E src entryPoint ty options sourceName]
    show ?thesis by auto
  next
    case modern
    with CompileWithDXC_trace [OF modern(2)] show ?thesis by auto
  qed
  then show "CacheHit \<notin> set evs" and "Reflection \<notin> set evs" and "CacheStore \<notin> set evs"
    and "(LegacyBackend \<in> set evs) =
           (m_useLegacyCompiler sc \<or> ShaderModel_value (targetModel options) \<le> ShaderModel_value SM_5_1)"
    and "(ModernBackend \<in> set evs) =
           (\<not> (m_useLegacyCompiler sc \<or> ShaderModel_value (targetModel options) \<le> ShaderModel_value SM_5_1))"
    by blast+
qed

lemma InvokeBackend_no_fault:
  assumes "m_useLegacyCompiler sc \<or> (m_dxcUtils sc \<and> m_dxcCompiler sc)"
  shows "\<exists>p. InvokeBackend E sc src entryPoint ty options sourceName = Inr p"
  using assms CompileWithDXC_legacy_free [of sc E src entryPoint ty options sourceName]
  by (auto simp add: InvokeBackend_def split: prod.splits)

lemma CompileWithLegacyCompiler_no_reflection:
  "inputLayout (fst (CompileWithLegacyCompiler E src entryPoint ty options sourceName)) = [] \<and>
   constantBufferBindings (fst (CompileWithLegacyCompiler E src entryPoint ty options sourceName)) = Map.empty \<and>
   textureBindings (fst (CompileWithLegacyCompiler E src entryPoint ty options sourceName)) = Map.empty \<and>
   samplerBindings (fst (CompileWithLegacyCompiler E src entryPoint ty options sourceName)) = Map.empty \<and>
   uavBindings (fst (CompileWithLegacyCompiler E src entryPoint ty options sourceName)) = Map.empty"
  by (simp add: CompileWithLegacyCompiler_def CompiledShader_default_def Let_def LegacyResult_fields
      split: option.splits)

lemma CompileWithDXC_no_reflection:
  "CompileWithDXC E sc src entryPoint ty options sourceName = Inr (r, evs) \<Longrightarrow>
   inputLayout r = [] \<and> constantBufferBindings r = Map.empty \<and> textureBindings r = Map.empty \<and>
   samplerBindings r = Map.empty \<and> uavBindings r = Map.empty"
  by (auto simp add: CompileWithDXC_def CompiledShader_default_def Let_def DxcResult_fields
      split: option.splits if_splits)

lemma InvokeBackend_no_reflection:
  assumes "InvokeBackend E sc src entryPoint ty options sourceName = Inr (r, evs)"
  shows "inputLayout r = [] \<and> constantBufferBindings r = Map.empty \<and> textureBindings r = Map.empty \<and>
         samplerBindings r = Map.empty \<and> uavBindings r = Map.empty"
proof (cases "m_useLegacyCompiler sc \<or> ShaderModel_value (targetModel options) \<le> ShaderModel_value SM_5_1")
  case True
  with assms have "r = fst (CompileWithLegacyCompiler E src entryPoint ty options sourceName)"
    by (auto simp add: InvokeBackend_def split: prod.splits)
  then show ?thesis
    using CompileWithLegacyCompiler_no_reflection [of E src entryPoint ty options sourceName] by simp
next
  case False
  with assms obtain evs' where "CompileWithDXC E sc src entryPoint ty options sourceName = Inr (r, evs')"
    by (auto simp add: InvokeBackend_def split: sum.splits prod.splits)
  then show ?thesis by (rule CompileWithDXC_no_reflection)
qed

lemma CompileFromSource_compiler:
  assumes "CompileFromSource E sc fs src entryPoint ty options sourceName = Inr out"
  shows "compiler out = sc\<lparr>m_cache := m_cache (compiler out)\<rparr>"
  using assms
  by (cases rule: CompileFromSource_cases [of E sc fs src options sourceName entryPoint ty]) auto


lemma CompileFromSource_no_fault:
  assumes "m_useLegacyCompiler sc \<or> (m_dxcUtils sc \<and> m_dxcCompiler sc)"
    and "CacheLookup E sc fs src options sourceName = Inr p"
  shows "\<exists>out. CompileFromSource E sc fs src entryPoint ty options sourceName = Inr out"
  using InvokeBackend_no_fault [OF assms(1), of E src entryPoint ty options sourceName] assms(2)
  by (cases rule: CompileFromSource_cases [of E sc fs src options sourceName entryPoint ty]) auto


lemma CompileFromSource_trace:
  assumes out: "CompileFromSource E sc fs src entryPoint ty options sourceName = Inr out"
  shows "(CacheHit \<in> set (trace out)) =
           (\<exists>bytes c. CacheLookup E sc fs src options sourceName = Inr (True, bytes, c))"
    and "(LegacyBackend \<in> set (trace out)) =
           (CacheHit \<notin> set (trace out) \<and>
            (m_useLegacyCompiler sc \<or> ShaderModel_value (targetModel options) \<le> ShaderModel_value SM_5_1))"
    and "(ModernBackend \<in> set (trace out)) =
           (CacheHit \<notin> set (trace out) \<and>
            \<not> (m_useLegacyCompiler sc \<or> ShaderModel_value (targetModel options) \<le> ShaderModel_value SM_5_1))"
    and "(Reflection \<in> set (trace out)) = success (result out)"
    and "(CacheStore \<in> set (trace out)) =
           (CacheHit \<notin> set (trace out) \<and> success (result out) \<and>
            m_cacheEnabled sc \<and> sourceName \<noteq> [])"
  using out
  by (cases rule: CompileFromSource_cases [of E sc fs src options sourceName entryPoint ty];
      auto simp add: InvokeBackend_trace)+

lemma CompileFromSource_no_reflection:
  assumes out: "CompileFromSource E sc fs src entryPoint ty options sourceName = Inr out"
  shows "inputLayout (result out) = [] \<and> constantBufferBindings (result out) = Map.empty \<and>
         textureBindings (result out) = Map.empty \<and> samplerBindings (result out) = Map.empty \<and>
         uavBindings (result out) = Map.empty"
  using out
  by (cases rule: CompileFromSource_cases [of E sc fs src options sourceName entryPoint ty])
    (auto dest: InvokeBackend_no_reflection)



lemma CompileFromFile_compiler:
  "CompileFromFile E sc fs filename entryPoint ty options = Inr out \<Longrightarrow>
     compiler out = sc\<lparr>m_cache := m_cache (compiler out)\<rparr>"
  unfolding CompileFromFile_def
  by (auto simp add: Let_def dest: CompileFromSource_compiler split: if_splits)

lemma InvokeBackend_legacy:
  "m_useLegacyCompiler sc \<Longrightarrow>
     InvokeBackend E sc src entryPoint ty options sourceName =
       Inr (fst (CompileWithLegacyCompiler E src entryPoint ty options sourceName),
            LegacyBackend # snd (CompileWithLegacyCompiler E src entryPoint ty options sourceName))"
  by (simp add: InvokeBackend_def split: prod.splits)

lemma CacheLookup_no_file:
  "m_memoryCache (m_cache sc) sourceName = None \<Longrightarrow> files fs = Map.empty \<Longrightarrow>
   (\<And>p. \<not> status_error fs p) \<Longrightarrow>
     CacheLookup E sc fs src options sourceName = Inr (False, [], m_cache sc)"
  by (simp add: CacheLookup_def GetCachedShader_def Let_def)

lemma Initialize_cache [simp]: "m_cache (snd (Initialize E sc)) = m_cache sc"
  by (simp add: Initialize_def)

lemma Initialize_no_dxc [simp]:
  "m_useLegacyCompiler (snd (Initialize Env_no_dxc sc))"
  "m_useLegacyCompiler (snd (Initialize Env_rejecting sc))"
  by (simp_all add: Initialize_def Env_rejecting_def Env_no_dxc_def Env_dxc_def)

lemma fresh_lookup_misses [simp]:
  "CacheLookup E (snd (Initialize E' ShaderCompiler_new)) fs_empty src options sourceName
     = Inr (False, [], m_cache ShaderCompiler_new)"
  using CacheLookup_no_file [of "snd (Initialize E' ShaderCompiler_new)" sourceName fs_empty E src options]
  by (simp add: ShaderCompiler_new_def fs_empty_def)

lemma Env_no_dxc_compiles:
  "LegacyProfile ty \<noteq> None \<Longrightarrow>
     fst (CompileWithLegacyCompiler Env_no_dxc src entryPoint ty options sourceName) =
       CompiledShader_default\<lparr>bytecode := [1, 2, 3], success := True\<rparr>"
  by (auto simp add: CompileWithLegacyCompiler_def LegacyResult_def Let_def Env_no_dxc_def Env_dxc_def)

lemma Env_rejecting_rejects:
  "LegacyProfile ty \<noteq> None \<Longrightarrow>
     fst (CompileWithLegacyCompiler Env_rejecting src entryPoint ty options sourceName) =
       CompiledShader_default\<lparr>errors := [''error X3000: syntax error'']\<rparr>"
  by (auto simp add: CompileWithLegacyCompiler_def LegacyResult_def Let_def Env_rejecting_def
      CompiledShader_default_def)













subsection \<open>The header in memory and in the file\<close>



lemma length_le32 [simp]: "length (le32 w) = 4"
  by (simp add: le32_def)

lemma length_le64 [simp]: "length (le64 w) = 8"
  by (simp add: le64_def)

lemma length_CACHE_MAGIC [simp]: "length CACHE_MAGIC = 4"
  by (simp add: CACHE_MAGIC_def)






lemma resize_length [simp]: "length (resize v n) = n"
  by (simp add: resize_def)


lemma GetCacheFilePath_memoryCache [simp]:
  "GetCacheFilePath E (c\<lparr>m_memoryCache := m\<rparr>) filename hash = GetCacheFilePath E c filename hash"
  by (simp add: GetCacheFilePath_def)





subsection \<open>Capabilities after a failed DXC initialisation\<close>


subsection \<open>Which back end a request reaches\<close>


subsection \<open>The target profile of the legacy back end\<close>

text \<open>
  Claim C10. For each of the six stages the legacy back end supports (vertex, hull,
  domain, geometry, pixel, compute), \<^verbatim>\<open>CompileWithLegacyCompiler\<close> calls
  \<^verbatim>\<open>D3DCompile\<close> exactly once and passes the target profile
  \<open><stage prefix>_5_0\<close>, whatever the compile options and so whatever the tier they
  request; the example is a request for tier 5.1 compiled as \<open>ps_5_0\<close>.
\<close>
theorem legacy_profile_is_5_0:
  assumes "ty \<in> {Vertex, Hull, Domain_stage, Geometry, Pixel, Compute}"
  shows "\<exists>args. snd (CompileWithLegacyCompiler E src entryPoint ty options sourceName) = [Call_D3DCompile args] \<and>
           pTarget args =
             (case ty of Vertex \<Rightarrow> ''vs'' | Hull \<Rightarrow> ''hs'' | Domain_stage \<Rightarrow> ''ds''
                       | Geometry \<Rightarrow> ''gs'' | Pixel \<Rightarrow> ''ps'' | Compute \<Rightarrow> ''cs''
                       | _ \<Rightarrow> []) @ ''_5_0''"
  using assms by (auto simp add: CompileWithLegacyCompiler_def LegacyProfile_def Let_def)

theorem legacy_profile_is_5_0_witness:
  "Pixel \<in> {Vertex, Hull, Domain_stage, Geometry, Pixel, Compute} \<and>
   (\<exists>args. snd (CompileWithLegacyCompiler Env_no_dxc red_pixel_shader ''main'' Pixel
                  (CompileOptions_default\<lparr>targetModel := SM_5_1\<rparr>) ''red.hlsl'')
             = [Call_D3DCompile args] \<and>
           pTarget args = ''ps_5_0'')"
  using legacy_profile_is_5_0 [where ty = Pixel and E = Env_no_dxc and src = red_pixel_shader
      and entryPoint = "''main''" and options = "CompileOptions_default\<lparr>targetModel := SM_5_1\<rparr>"
      and sourceName = "''red.hlsl''"]
  by simp
subsection \<open>A lookup that misses the memory tier\<close>

lemma ReadHeader_short:
  "length bytes \<le> sizeof_CacheHeader \<Longrightarrow>
     ReadHeader E bytes =
       CacheHeader_of_bytes (bytes @ drop (length bytes) (map (stack_garbage E) [0..<sizeof_CacheHeader]))"
  by (simp add: ReadHeader_def stream_read_def sizeof_CacheHeader_def)

lemma stream_read_nothing [simp]: "stream_read buf [] = buf"
  by (simp add: stream_read_def)

text \<open>
  Claim C1 does not hold of the code: a cache file shorter than the 24 bytes of the
  header is reported as a hit although it holds no magic, version or fingerprint. The
  local header is not initialised and the result of the read is not tested, so the
  fields the file does not fill are what the stack held. When the memory tier misses,
  the file can be found and opened, and the file's bytes followed by the stack's bytes
  make a header with the magic \<^verbatim>\<open>XESS\<close>, the current version and the requested
  fingerprint, \<^verbatim>\<open>GetCachedShader\<close> returns \<open>true\<close>; the bytes handed back and
  inserted into the memory tier are not read from the file: they are the caller's vector
  cut or zero-filled to the size the stack held.
\<close>

theorem short_record_is_a_hit:
  fixes E c fs filename hash bytes cached n
  defines "cachePath \<equiv> GetCacheFilePath E c filename hash"
  assumes memory_miss: "case m_memoryCache c filename of None \<Rightarrow> True | Some it \<Rightarrow> entry_hash it \<noteq> hash"
    and found: "\<not> status_error fs cachePath" "files fs cachePath = Some cached"
      "\<not> unreadable fs cachePath"
    and short: "length (content cached) < sizeof_CacheHeader"
    and stack: "CacheHeader_of_bytes
                  (content cached @ drop (length (content cached))
                                    (map (stack_garbage E) [0..<sizeof_CacheHeader]))
                = \<lparr> header_magic = map of_char ''XESS'', header_version = CACHE_VERSION,
                    header_hash = hash, header_size = n \<rparr>"
    and no_throw: "\<not> resize_throws E (unat n)" "\<not> last_write_time_throws fs cachePath"
  shows "GetCachedShader E c fs filename hash bytes =
           Inr (True, resize bytes (unat n),
                c\<lparr>m_memoryCache := (m_memoryCache c)
                     (filename \<mapsto> \<lparr> entry_bytecode = resize bytes (unat n), entry_hash = hash,
                                    entry_timestamp = mtime cached \<rparr>)\<rparr>)"
proof -
  from short have "length (content cached) \<le> sizeof_CacheHeader" by simp
  from ReadHeader_short [OF this, of E] stack
  have header: "ReadHeader E (content cached) =
      \<lparr> header_magic = CACHE_MAGIC, header_version = CACHE_VERSION, header_hash = hash,
        header_size = n \<rparr>"
    by (simp add: CACHE_MAGIC_def)
  from short have rest: "\<not> sizeof_CacheHeader \<le> length (content cached)" by simp
  show ?thesis
    using memory_miss found no_throw unfolding cachePath_def
    by (simp add: GetCachedShader_def Let_def header rest split: option.splits)
qed

lemma length_stored_record [simp]: "length stored_record = 27"
  by (simp add: stored_record_def)

lemma stale_header_path [simp]:
  "GetCacheFilePath Env_stale_header c filename hash = GetCacheFilePath Env_dxc c filename hash"
  by (simp add: GetCacheFilePath_def Env_stale_header_def)

lemma stale_stack:
  "map (stack_garbage Env_stale_header) [0..<sizeof_CacheHeader] = take 24 stored_record"
  by (simp add: Env_stale_header_def sizeof_CacheHeader_def stored_record_def upt_rec)

theorem short_record_is_a_hit_witness:
  "GetCachedShader Env_stale_header (m_cache ShaderCompiler_new) (fs_with_record []) ''red.hlsl'' 7 []
     = Inr (True, [0, 0, 0],
            (m_cache ShaderCompiler_new)
              \<lparr>m_memoryCache :=
                 [''red.hlsl'' \<mapsto> \<lparr> entry_bytecode = [0, 0, 0], entry_hash = 7,
                                    entry_timestamp = 5 \<rparr>]\<rparr>) \<and>
   GetCachedShader Env_stale_header (m_cache ShaderCompiler_new) (fs_with_record [0x58]) ''red.hlsl'' 7 []
     = Inr (True, [0, 0, 0],
            (m_cache ShaderCompiler_new)
              \<lparr>m_memoryCache :=
                 [''red.hlsl'' \<mapsto> \<lparr> entry_bytecode = [0, 0, 0], entry_hash = 7,
                                    entry_timestamp = 5 \<rparr>]\<rparr>)"
proof -
  let ?c = "m_cache ShaderCompiler_new"
  let ?path = "GetCacheFilePath Env_stale_header ?c ''red.hlsl'' 7"
  have miss: "case m_memoryCache ?c ''red.hlsl'' of None \<Rightarrow> True | Some it \<Rightarrow> entry_hash it \<noteq> 7"
    by (simp add: ShaderCompiler_new_def)
  have memory: "m_memoryCache ?c = Map.empty"
    by (simp add: ShaderCompiler_new_def)
  have ok: "\<not> status_error (fs_with_record bs) ?path" "\<not> unreadable (fs_with_record bs) ?path"
    "\<not> last_write_time_throws (fs_with_record bs) ?path" for bs
    by (simp_all add: fs_with_record_def fs_empty_def)
  have stored: "files (fs_with_record bs) ?path = Some \<lparr> content = bs, mtime = 5 \<rparr>" for bs
    by (simp add: fs_with_record_def)
  have "replicate 3 (0 :: uint8) = [0, 0, 0]"
    by (simp add: numeral_3_eq_3)
  then have zeros: "resize [] 3 = [0, 0, 0 :: uint8]"
    by (simp add: resize_def)
  have alloc: "\<not> resize_throws Env_stale_header (unat (3 :: uint32))"
    by (simp add: Env_stale_header_def Env_dxc_def)
  have empty: "CacheHeader_of_bytes
                 (content \<lparr> content = [], mtime = 5 \<rparr>
                    @ drop (length (content \<lparr> content = ([] :: uint8 list), mtime = (5 :: uint64) \<rparr>))
                        (map (stack_garbage Env_stale_header) [0..<sizeof_CacheHeader]))
               = \<lparr> header_magic = map of_char ''XESS'', header_version = CACHE_VERSION,
                   header_hash = 7, header_size = 3 \<rparr>"
    unfolding stale_stack
    by (simp add: CacheHeader_of_bytes_def stored_record_def rd32_def rd64_def CACHE_VERSION_def)
  have one: "CacheHeader_of_bytes
                 (content \<lparr> content = [0x58], mtime = 5 \<rparr>
                    @ drop (length (content \<lparr> content = ([0x58] :: uint8 list), mtime = (5 :: uint64) \<rparr>))
                        (map (stack_garbage Env_stale_header) [0..<sizeof_CacheHeader]))
               = \<lparr> header_magic = map of_char ''XESS'', header_version = CACHE_VERSION,
                   header_hash = 7, header_size = 3 \<rparr>"
    unfolding stale_stack
    by (simp add: CacheHeader_of_bytes_def stored_record_def rd32_def rd64_def CACHE_VERSION_def)
  have "GetCachedShader Env_stale_header ?c (fs_with_record []) ''red.hlsl'' 7 []
     = Inr (True, [0, 0, 0],
            ?c\<lparr>m_memoryCache :=
                 [''red.hlsl'' \<mapsto> \<lparr> entry_bytecode = [0, 0, 0], entry_hash = 7,
                                    entry_timestamp = 5 \<rparr>]\<rparr>)"
    using short_record_is_a_hit [OF miss ok(1) stored ok(2) _ empty alloc ok(3), where bytes = "[]"]
    by (simp add: sizeof_CacheHeader_def zeros memory)
  moreover have "GetCachedShader Env_stale_header ?c (fs_with_record [0x58]) ''red.hlsl'' 7 []
     = Inr (True, [0, 0, 0],
            ?c\<lparr>m_memoryCache :=
                 [''red.hlsl'' \<mapsto> \<lparr> entry_bytecode = [0, 0, 0], entry_hash = 7,
                                    entry_timestamp = 5 \<rparr>]\<rparr>)"
    using short_record_is_a_hit [OF miss ok(1) stored ok(2) _ one alloc ok(3), where bytes = "[]"]
    by (simp add: sizeof_CacheHeader_def zeros memory)
  ultimately show ?thesis by blast
qed
subsection \<open>Store, restart, load\<close>



subsection \<open>A failed compilation and the cache\<close>

text \<open>
  Claim C5. When \<^verbatim>\<open>CompileFromSource\<close> returns a result with
  \<^verbatim>\<open>success == false\<close>, the compiler object (its memory tier included) and the file
  system (the disk tier included) are what they were before the request; the request was
  not answered from the cache and \<^verbatim>\<open>CacheShader\<close> was not called; a back end was
  invoked; and the same request, made again on what the first one left, invokes a back
  end again with the same outcome. So the cache changes only under a result with
  \<^verbatim>\<open>success == true\<close>.
\<close>

theorem failed_compile_leaves_cache:
  assumes out: "CompileFromSource E sc fs src entryPoint ty options sourceName = Inr out"
    and failed: "\<not> success (result out)"
  shows "compiler out = sc \<and> filesystem out = fs \<and>
         CacheHit \<notin> set (trace out) \<and> CacheStore \<notin> set (trace out) \<and>
         (LegacyBackend \<in> set (trace out) \<or> ModernBackend \<in> set (trace out)) \<and>
         CompileFromSource E (compiler out) (filesystem out) src entryPoint ty options sourceName
           = Inr out"
  using out failed
proof (cases rule: CompileFromSource_cases [of E sc fs src options sourceName entryPoint ty])
  case (failed r evs bytes)
  with out have "out = \<lparr> result = r, compiler = sc, filesystem = fs, trace = evs \<rparr>" by simp
  with out InvokeBackend_trace [OF failed(2)] show ?thesis by auto
qed auto

theorem failed_compile_leaves_cache_witness:
  "\<exists>out. CompileFromSource Env_rejecting (snd (Initialize Env_rejecting ShaderCompiler_new)) fs_empty
            red_pixel_shader ''main'' Pixel CompileOptions_default ''red.hlsl'' = Inr out \<and>
         \<not> success (result out) \<and>
         compiler out = snd (Initialize Env_rejecting ShaderCompiler_new) \<and> filesystem out = fs_empty \<and>
         CacheHit \<notin> set (trace out) \<and> CacheStore \<notin> set (trace out) \<and>
         (LegacyBackend \<in> set (trace out) \<or> ModernBackend \<in> set (trace out)) \<and>
         CompileFromSource Env_rejecting (compiler out) (filesystem out) red_pixel_shader ''main'' Pixel
           CompileOptions_default ''red.hlsl'' = Inr out"
proof -
  let ?sc = "snd (Initialize Env_rejecting ShaderCompiler_new)"
  have legacy: "m_useLegacyCompiler ?sc \<or> (m_dxcUtils ?sc \<and> m_dxcCompiler ?sc)"
    by (simp add: Initialize_def Env_rejecting_def Env_no_dxc_def Env_dxc_def)
  from CompileFromSource_no_fault [OF legacy fresh_lookup_misses] obtain out where
    out: "CompileFromSource Env_rejecting ?sc fs_empty red_pixel_shader ''main'' Pixel
            CompileOptions_default ''red.hlsl'' = Inr out"
    by blast
  have lookup: "CacheLookup Env_rejecting ?sc fs_empty red_pixel_shader CompileOptions_default
                  ''red.hlsl'' = Inr (False, [], m_cache ShaderCompiler_new)"
    by simp
  have backend: "\<not> success (fst (CompileWithLegacyCompiler Env_rejecting red_pixel_shader ''main'' Pixel
                                    CompileOptions_default ''red.hlsl''))"
    by (simp add: CompileWithLegacyCompiler_def LegacyProfile_def LegacyResult_fields Let_def
        Env_rejecting_def)
  have failed: "\<not> success (result out)"
    using out lookup backend
    by (cases rule: CompileFromSource_cases [of Env_rejecting ?sc fs_empty red_pixel_shader
          CompileOptions_default "''red.hlsl''" "''main''" Pixel])
      (auto simp add: InvokeBackend_def Initialize_def Env_rejecting_def Env_no_dxc_def Env_dxc_def
        split: prod.splits)
  from out failed failed_compile_leaves_cache [OF out failed] show ?thesis by blast
qed
subsection \<open>Reflection\<close>

text \<open>
  Claim C7, as amended. For every request that returns, \<^verbatim>\<open>ExtractReflectionData\<close>
  is called exactly when the result has \<^verbatim>\<open>success == true\<close> (a cache hit is such a
  result) and never when \<^verbatim>\<open>success == false\<close>; and the input layout and the
  constant-buffer, texture, sampler and UAV binding maps of the returned
  \<^verbatim>\<open>CompiledShader\<close> are empty in either case. As stated the claim fails: nothing
  is populated from the bytecode. The function clears the five containers and does not
  read the bytecode, so the vertex shader of the counterexample, which declares the
  constant buffer \<^verbatim>\<open>Params\<close> and the input \<^verbatim>\<open>POSITION\<close>, compiles to a result
  with no binding and no input element, and a binding that was there is removed.
\<close>

theorem reflection_runs_iff_success:
  assumes out: "CompileFromSource E sc fs src entryPoint ty options sourceName = Inr out"
  shows "(Reflection \<in> set (trace out)) = success (result out) \<and>
         inputLayout (result out) = [] \<and> constantBufferBindings (result out) = Map.empty \<and>
         textureBindings (result out) = Map.empty \<and> samplerBindings (result out) = Map.empty \<and>
         uavBindings (result out) = Map.empty"
  using CompileFromSource_trace(4) [OF out] CompileFromSource_no_reflection [OF out] by simp

theorem reflection_runs_iff_success_witness:
  "(\<exists>out. CompileFromSource Env_no_dxc (snd (Initialize Env_no_dxc ShaderCompiler_new)) fs_empty
            cbuffer_vertex_shader ''main'' Vertex CompileOptions_default ''lit.hlsl'' = Inr out \<and>
          success (result out) \<and> Reflection \<in> set (trace out) \<and>
          inputLayout (result out) = [] \<and> constantBufferBindings (result out) = Map.empty \<and>
          textureBindings (result out) = Map.empty \<and> samplerBindings (result out) = Map.empty \<and>
          uavBindings (result out) = Map.empty) \<and>
   (\<exists>out. CompileFromSource Env_rejecting (snd (Initialize Env_rejecting ShaderCompiler_new)) fs_empty
            cbuffer_vertex_shader ''main'' Vertex CompileOptions_default ''lit.hlsl'' = Inr out \<and>
          \<not> success (result out) \<and> Reflection \<notin> set (trace out) \<and>
          inputLayout (result out) = [] \<and> constantBufferBindings (result out) = Map.empty \<and>
          textureBindings (result out) = Map.empty \<and> samplerBindings (result out) = Map.empty \<and>
          uavBindings (result out) = Map.empty)"
proof -
  let ?sc = "snd (Initialize Env_no_dxc ShaderCompiler_new)"
  let ?sc' = "snd (Initialize Env_rejecting ShaderCompiler_new)"
  obtain out where out: "CompileFromSource Env_no_dxc ?sc fs_empty
            cbuffer_vertex_shader ''main'' Vertex CompileOptions_default ''lit.hlsl'' = Inr out"
    using CompileFromSource_no_fault [of ?sc, OF disjI1, OF Initialize_no_dxc(1) fresh_lookup_misses]
    by blast
  have ok: "success (result out)"
    using out fresh_lookup_misses [of Env_no_dxc Env_no_dxc cbuffer_vertex_shader
        CompileOptions_default "''lit.hlsl''"]
    by (cases rule: CompileFromSource_cases [of Env_no_dxc ?sc fs_empty cbuffer_vertex_shader
          CompileOptions_default "''lit.hlsl''" "''main''" Vertex])
      (auto simp add: InvokeBackend_legacy Env_no_dxc_compiles LegacyProfile_def)
  obtain out' where out': "CompileFromSource Env_rejecting ?sc' fs_empty
            cbuffer_vertex_shader ''main'' Vertex CompileOptions_default ''lit.hlsl'' = Inr out'"
    using CompileFromSource_no_fault [of ?sc', OF disjI1, OF Initialize_no_dxc(2) fresh_lookup_misses]
    by blast
  have no: "\<not> success (result out')"
    using out' fresh_lookup_misses [of Env_rejecting Env_rejecting cbuffer_vertex_shader
        CompileOptions_default "''lit.hlsl''"]
    by (cases rule: CompileFromSource_cases [of Env_rejecting ?sc' fs_empty cbuffer_vertex_shader
          CompileOptions_default "''lit.hlsl''" "''main''" Vertex])
      (auto simp add: InvokeBackend_legacy Env_rejecting_rejects LegacyProfile_def
        CompiledShader_default_def)
  from out ok out' no reflection_runs_iff_success [OF out] reflection_runs_iff_success [OF out']
  show ?thesis by auto
qed

theorem reflection_counterexample:
  "(\<exists>out. CompileFromSource Env_no_dxc (snd (Initialize Env_no_dxc ShaderCompiler_new)) fs_empty
            cbuffer_vertex_shader ''main'' Vertex CompileOptions_default ''lit.hlsl'' = Inr out \<and>
          success (result out) \<and> bytecode (result out) = [1, 2, 3] \<and>
          inputLayout (result out) = [] \<and> constantBufferBindings (result out) = Map.empty \<and>
          textureBindings (result out) = Map.empty \<and> samplerBindings (result out) = Map.empty \<and>
          uavBindings (result out) = Map.empty) \<and>
   constantBufferBindings
     (ExtractReflectionData [1, 2, 3]
        (CompiledShader_default\<lparr>constantBufferBindings := [''Params'' \<mapsto> 0]\<rparr>)) ''Params'' = None"
proof -
  let ?sc = "snd (Initialize Env_no_dxc ShaderCompiler_new)"
  obtain out where out: "CompileFromSource Env_no_dxc ?sc fs_empty
            cbuffer_vertex_shader ''main'' Vertex CompileOptions_default ''lit.hlsl'' = Inr out"
    using CompileFromSource_no_fault [of ?sc, OF disjI1, OF Initialize_no_dxc(1) fresh_lookup_misses]
    by blast
  have "success (result out) \<and> bytecode (result out) = [1, 2, 3]"
    using out fresh_lookup_misses [of Env_no_dxc Env_no_dxc cbuffer_vertex_shader
        CompileOptions_default "''lit.hlsl''"]
    by (cases rule: CompileFromSource_cases [of Env_no_dxc ?sc fs_empty cbuffer_vertex_shader
          CompileOptions_default "''lit.hlsl''" "''main''" Vertex])
      (auto simp add: InvokeBackend_legacy Env_no_dxc_compiles LegacyProfile_def)
  with out CompileFromSource_no_reflection [OF out] show ?thesis by auto
qed
subsection \<open>Failures are returned, not thrown\<close>




subsection \<open>What the fingerprint tells apart\<close>

lemma xor_left_cancel_word: "((h :: 'a::len word) XOR a = h XOR b) = (a = b)"
proof
  assume "h XOR a = h XOR b"
  then have "h XOR (h XOR a) = h XOR (h XOR b)" by simp
  then show "a = b" by (simp add: xor.assoc [symmetric])
qed simp

lemma ucast_32_64_inj: "((ucast (a :: uint32) :: uint64) = ucast b) = (a = b)"
proof
  assume eq: "(ucast a :: uint64) = ucast b"
  have up: "is_up (ucast :: uint32 \<Rightarrow> uint64)" by (simp add: is_up)
  from eq have "(ucast (ucast a :: uint64) :: uint32) = ucast (ucast b :: uint64)" by simp
  then show "a = b" by (simp add: ucast_up_ucast_id [OF up])
qed simp

lemma CacheShader_memory:
  assumes "\<not> mkdir_throws fs (m_cacheDirectory c)"
    and "\<not> unwritable fs (GetCacheFilePath E c filename hash)"
  shows "m_memoryCache (fst (CacheShader E c fs filename hash bytes)) filename =
           Some \<lparr> entry_bytecode = bytes, entry_hash = hash, entry_timestamp = system_clock fs \<rparr>"
  using assms by (simp add: CacheShader_def Let_def)

lemma GetCachedShader_memory_hit:
  assumes "m_memoryCache c filename = Some it" and "entry_hash it = hash"
  shows "GetCachedShader E c fs filename hash bytes = Inr (True, entry_bytecode it, c)"
  using assms by (simp add: GetCachedShader_def Let_def)

lemma CompileFromSource_hit:
  assumes "CacheLookup E sc fs src options sourceName = Inr (True, bytes, c1)"
  shows "CompileFromSource E sc fs src entryPoint ty options sourceName =
           Inr \<lparr> result = ExtractReflectionData bytes
                            (CompiledShader_default\<lparr>bytecode := bytes, success := True\<rparr>),
                 compiler = sc\<lparr>m_cache := c1\<rparr>, filesystem = fs, trace = [CacheHit, Reflection] \<rparr>"
  using assms by (simp add: CompileFromSource_def)

text \<open>
  What the fingerprint does tell apart. For two option sets with the same target tier,
  debug-information flag and optimisation flag: when neither has macros, the
  fingerprints of a source differ exactly when the optimisation levels differ; and when
  they share the optimisation level and all macros but the last, the fingerprints differ
  exactly when \<^verbatim>\<open>std::hash\<close> separates the texts \<open>name=definition\<close> of the two
  last macros.
\<close>

lemma CalculateSourceHash_last_component:
  assumes "targetModel o1 = targetModel o2" and "enableDebugInfo o1 = enableDebugInfo o2"
    and "enableOptimization o1 = enableOptimization o2"
  shows "(macros o1 = [] \<and> macros o2 = [] \<longrightarrow>
            (CalculateSourceHash E src o1 \<noteq> CalculateSourceHash E src o2) =
            (optimizationLevel o1 \<noteq> optimizationLevel o2)) \<and>
         (\<forall>ms m1 m2. optimizationLevel o1 = optimizationLevel o2 \<and>
            macros o1 = ms @ [m1] \<and> macros o2 = ms @ [m2] \<longrightarrow>
            (CalculateSourceHash E src o1 \<noteq> CalculateSourceHash E src o2) =
            (hasher E (macro_name m1 @ ''='' @ macro_definition m1) \<noteq>
             hasher E (macro_name m2 @ ''='' @ macro_definition m2)))"
  using assms
  by (simp add: CalculateSourceHash_def Let_def xor_left_cancel_word ucast_32_64_inj)

text \<open>
  Claim C2 does not hold of the code: the fingerprint is computed from the source text,
  the target tier, the debug-information flag, the optimisation flag, the optimisation
  level and the macros, and from nothing else of a request. Entry point and shader type
  are no input of \<^verbatim>\<open>CalculateSourceHash\<close>, and the flags
  \<^verbatim>\<open>warningsAsErrors\<close>, \<^verbatim>\<open>ieee754Compliance\<close> and
  \<^verbatim>\<open>enableUnboundedResourceArrays\<close> are not read. So once a request has been
  compiled and stored in the cache, every later request with the same source text and
  source name that agrees with it on the five fields read has the same fingerprint and
  is answered from the cache with the first request's bytecode, whatever its entry
  point, its shader type and its other flags.
\<close>

theorem cache_key_ignores_stage_and_flags:
  assumes first: "CompileFromSource E sc fs src entryPoint ty options sourceName = Inr out"
    and stored: "CacheStore \<in> set (trace out)"
    and created: "\<not> mkdir_throws fs (m_cacheDirectory (m_cache sc))"
      "\<not> unwritable fs (GetCacheFilePath E (m_cache sc) sourceName
                           (CalculateSourceHash E src options))"
    and same: "targetModel options' = targetModel options"
      "enableDebugInfo options' = enableDebugInfo options"
      "enableOptimization options' = enableOptimization options"
      "optimizationLevel options' = optimizationLevel options"
      "macros options' = macros options"
  shows "CalculateSourceHash E src options' = CalculateSourceHash E src options \<and>
         (\<exists>out'. CompileFromSource E (compiler out) (filesystem out) src entryPoint' ty' options'
                    sourceName = Inr out' \<and>
                 trace out' = [CacheHit, Reflection] \<and> success (result out') \<and>
                 bytecode (result out') = bytecode (result out))"
proof -
  let ?hash = "CalculateSourceHash E src options"
  have key: "CalculateSourceHash E src options' = ?hash"
    using same by (simp add: CalculateSourceHash_def)
  from first stored obtain r c2 fs2
    where enabled: "m_cacheEnabled sc" and named: "sourceName \<noteq> []"
      and store: "CacheShader E (m_cache sc) fs sourceName ?hash (bytecode r) = (c2, fs2)"
      and out: "out = \<lparr> result = ExtractReflectionData (bytecode r) r, compiler = sc\<lparr>m_cache := c2\<rparr>,
                       filesystem = fs2, trace = trace out \<rparr>"
    by (cases rule: CompileFromSource_cases [of E sc fs src options sourceName entryPoint ty])
      (auto dest: InvokeBackend_trace(3))
  from CacheShader_memory [OF created, of "bytecode r"] store
  have entry: "m_memoryCache c2 sourceName =
                 Some \<lparr> entry_bytecode = bytecode r, entry_hash = ?hash,
                        entry_timestamp = system_clock fs \<rparr>"
    by simp
  have compiler: "m_cache (compiler out) = c2" "m_cacheEnabled (compiler out)"
    and code: "bytecode (result out) = bytecode r"
    using enabled by (subst out, simp)+
  have "CacheLookup E (compiler out) (filesystem out) src options' sourceName
          = Inr (True, bytecode r, c2)"
    using GetCachedShader_memory_hit [OF entry, of ?hash E "filesystem out" "[]"] named compiler
    by (simp add: CacheLookup_def key)
  from CompileFromSource_hit [OF this, of entryPoint' ty'] key code show ?thesis by simp
qed

lemma Initialize_by_profile [simp]:
  "m_useLegacyCompiler (snd (Initialize Env_by_profile sc))"
  by (simp add: Initialize_def Env_by_profile_def Env_no_dxc_def Env_dxc_def)

theorem cache_key_ignores_stage_and_flags_witness:
  "\<exists>out. CompileFromSource Env_by_profile (snd (Initialize Env_by_profile ShaderCompiler_new)) fs_empty
            two_stage_shader ''VSMain'' Vertex CompileOptions_default ''fx.hlsl'' = Inr out \<and>
         CacheStore \<in> set (trace out) \<and>
         bytecode (result out) = map of_char ''vs_5_0'' \<and>
         CalculateSourceHash Env_by_profile two_stage_shader
             (CompileOptions_default\<lparr>warningsAsErrors := True\<rparr>)
           = CalculateSourceHash Env_by_profile two_stage_shader CompileOptions_default \<and>
         (\<exists>out'. CompileFromSource Env_by_profile (compiler out) (filesystem out)
                    two_stage_shader ''PSMain'' Pixel
                    (CompileOptions_default\<lparr>warningsAsErrors := True\<rparr>) ''fx.hlsl'' = Inr out' \<and>
                 trace out' = [CacheHit, Reflection] \<and> success (result out') \<and>
                 bytecode (result out') = map of_char ''vs_5_0'')"
proof -
  let ?E = Env_by_profile
  let ?sc = "snd (Initialize ?E ShaderCompiler_new)"
  let ?vs = "map of_char ''vs_5_0'' :: uint8 list"
  have enabled: "m_cacheEnabled ?sc"
    by (simp add: Initialize_def ShaderCompiler_new_def)
  have vs: "fst (CompileWithLegacyCompiler ?E two_stage_shader ''VSMain'' Vertex CompileOptions_default
                   ''fx.hlsl'') = CompiledShader_default\<lparr>bytecode := ?vs, success := True\<rparr>"
    by (simp add: CompileWithLegacyCompiler_def LegacyProfile_def LegacyResult_def Let_def
        Env_by_profile_def)
  obtain out where out: "CompileFromSource ?E ?sc fs_empty two_stage_shader ''VSMain'' Vertex
        CompileOptions_default ''fx.hlsl'' = Inr out"
    using CompileFromSource_no_fault [of ?sc, OF disjI1, OF Initialize_by_profile fresh_lookup_misses]
    by blast
  have first: "CacheStore \<in> set (trace out) \<and> bytecode (result out) = ?vs"
    using out enabled fresh_lookup_misses [of ?E ?E two_stage_shader CompileOptions_default "''fx.hlsl''"]
    by (cases rule: CompileFromSource_cases [of ?E ?sc fs_empty two_stage_shader
          CompileOptions_default "''fx.hlsl''" "''VSMain''" Vertex])
      (auto simp add: InvokeBackend_legacy vs)
  have created: "\<not> mkdir_throws fs_empty (m_cacheDirectory (m_cache ?sc))"
    "\<not> unwritable fs_empty (GetCacheFilePath ?E (m_cache ?sc) ''fx.hlsl''
                               (CalculateSourceHash ?E two_stage_shader CompileOptions_default))"
    by (simp_all add: fs_empty_def)
  from cache_key_ignores_stage_and_flags [OF out conjunct1 [OF first] created,
      where options' = "CompileOptions_default\<lparr>warningsAsErrors := True\<rparr>"
        and entryPoint' = "''PSMain''" and ty' = Pixel]
    out first
  show ?thesis by auto
qed

subsection \<open>Hot reload\<close>

lemma LoadFromFile_sourceFile:
  "m_sourceFile (fst (snd (LoadFromFile M sh mgr fs filename entryPoint ty options))) = filename"
  by (simp add: LoadFromFile_def Let_def split: option.splits prod.splits sum.splits)

lemma LoadFromFile_hotReloadEnabled:
  "m_hotReloadEnabled_S (fst (snd (LoadFromFile M sh mgr fs filename entryPoint ty options)))
     = m_hotReloadEnabled_S sh"
  by (simp add: LoadFromFile_def Let_def split: option.splits prod.splits sum.splits)

lemma LoadFromFile_lastFileTime:
  "m_lastFileTime (fst (snd (LoadFromFile M sh mgr fs filename entryPoint ty options)))
     = (if fst (LoadFromFile M sh mgr fs filename entryPoint ty options)
        then GetFileTime fs filename else m_lastFileTime sh)"
  by (simp add: LoadFromFile_def Let_def split: option.splits prod.splits sum.splits)

lemma CheckForReload_unchanged:
  assumes "\<not> (m_hotReloadEnabled_S sh \<and> m_sourceFile sh \<noteq> [] \<and>
              m_lastFileTime sh < GetFileTime fs (m_sourceFile sh))"
  shows "CheckForReload M sh mgr fs = (sh, mgr, [])"
  using assms by (auto simp add: CheckForReload_def Let_def)

lemma CheckForReload_reloads:
  assumes "m_hotReloadEnabled_S sh" and "m_sourceFile sh \<noteq> []"
    and "m_lastFileTime sh < GetFileTime fs (m_sourceFile sh)"
  shows "CheckForReload M sh mgr fs =
           (fst (snd (LoadFromFile M sh mgr fs (m_sourceFile sh) (m_entryPoint sh) (m_type sh)
                        (m_compileOptions sh))),
            snd (snd (LoadFromFile M sh mgr fs (m_sourceFile sh) (m_entryPoint sh) (m_type sh)
                        (m_compileOptions sh))),
            [Log_HotReloading,
             if fst (LoadFromFile M sh mgr fs (m_sourceFile sh) (m_entryPoint sh) (m_type sh)
                       (m_compileOptions sh))
             then Log_HotReloadSuccessful else Log_HotReloadFailed])"
  using assms by (simp add: CheckForReload_def Let_def split: prod.splits)

text \<open>
  Claim C9, as the code has it. A hot-reload check \<^verbatim>\<open>Shader::CheckForReload\<close> reloads
  (it logs, and calls \<^verbatim>\<open>LoadFromFile\<close>) exactly when hot reload is enabled, a source
  file is set and the file's modification time is strictly newer than the last recorded
  timestamp; otherwise it leaves the shader and the manager as they are. The last-seen
  timestamp is updated only when the reload succeeds: after a successful reload it is the
  file's modification time, and a further check with no timestamp change does not reload
  again; after a failed reload it is unchanged, and a further check with no timestamp
  change reloads again.
\<close>

theorem reload_only_when_newer:
  assumes "CheckForReload M sh mgr fs = (sh', mgr', log)"
  shows "((log \<noteq> []) = (m_hotReloadEnabled_S sh \<and> m_sourceFile sh \<noteq> [] \<and>
                          m_lastFileTime sh < GetFileTime fs (m_sourceFile sh))) \<and>
         (log = [] \<or> log = [Log_HotReloading, Log_HotReloadSuccessful] \<or>
          log = [Log_HotReloading, Log_HotReloadFailed]) \<and>
         (log = [] \<longrightarrow> sh' = sh \<and> mgr' = mgr) \<and>
         (log = [Log_HotReloading, Log_HotReloadSuccessful] \<longrightarrow>
            m_lastFileTime sh' = GetFileTime fs (m_sourceFile sh) \<and>
            CheckForReload M' sh' mgr'' fs = (sh', mgr'', [])) \<and>
         (log = [Log_HotReloading, Log_HotReloadFailed] \<longrightarrow>
            m_lastFileTime sh' = m_lastFileTime sh \<and>
            snd (snd (CheckForReload M' sh' mgr'' fs)) \<noteq> [])"
proof (cases "m_hotReloadEnabled_S sh \<and> m_sourceFile sh \<noteq> [] \<and>
              m_lastFileTime sh < GetFileTime fs (m_sourceFile sh)")
  case False
  from CheckForReload_unchanged [OF False, of M mgr] assms
  have "sh' = sh" and "mgr' = mgr" and "log = []" by simp_all
  with False show ?thesis by simp
next
  case True
  let ?load = "LoadFromFile M sh mgr fs (m_sourceFile sh) (m_entryPoint sh) (m_type sh)
                 (m_compileOptions sh)"
  from True have on: "m_hotReloadEnabled_S sh" and set: "m_sourceFile sh \<noteq> []"
    and newer: "m_lastFileTime sh < GetFileTime fs (m_sourceFile sh)" by simp_all
  from CheckForReload_reloads [OF on set newer, of M mgr] assms
  have sh': "sh' = fst (snd ?load)"
    and log: "log = [Log_HotReloading,
                     if fst ?load then Log_HotReloadSuccessful else Log_HotReloadFailed]"
    by simp_all
  have same_file: "m_sourceFile sh' = m_sourceFile sh"
    unfolding sh' by (rule LoadFromFile_sourceFile)
  have on': "m_hotReloadEnabled_S sh'"
    unfolding sh' using on by (simp add: LoadFromFile_hotReloadEnabled)
  have time: "m_lastFileTime sh' =
                (if fst ?load then GetFileTime fs (m_sourceFile sh) else m_lastFileTime sh)"
    unfolding sh' by (rule LoadFromFile_lastFileTime)
  show ?thesis
  proof (cases "fst ?load")
    case ok: True
    with time have t: "m_lastFileTime sh' = GetFileTime fs (m_sourceFile sh)" by simp
    have "\<not> (m_hotReloadEnabled_S sh' \<and> m_sourceFile sh' \<noteq> [] \<and>
              m_lastFileTime sh' < GetFileTime fs (m_sourceFile sh'))"
      by (simp add: t same_file)
    from CheckForReload_unchanged [OF this]
    have "CheckForReload M' sh' mgr'' fs = (sh', mgr'', [])" .
    with True ok log t show ?thesis by simp
  next
    case failed: False
    with time have t: "m_lastFileTime sh' = m_lastFileTime sh" by simp
    have "m_lastFileTime sh' < GetFileTime fs (m_sourceFile sh')"
      using newer by (simp add: t same_file)
    from CheckForReload_reloads [OF on' _ this, of M' mgr''] set same_file
    have "snd (snd (CheckForReload M' sh' mgr'' fs)) \<noteq> []" by simp
    with True failed log t show ?thesis by simp
  qed
qed

lemma reload_compiling:
  assumes "m_hotReloadEnabled_S sh" and "m_sourceFile sh = ''fx.hlsl''" and "m_lastFileTime sh = 10"
  shows "snd (CheckForReload Manager_compiling sh n fs_edited)
           = (Suc n, [Log_HotReloading, Log_HotReloadSuccessful])"
  using assms
  by (simp add: CheckForReload_def LoadFromFile_def GetFileTime_def Let_def IsValid_def
      Manager_compiling_def fs_edited_def fs_empty_def)

lemma reload_failing:
  assumes "m_hotReloadEnabled_S sh" and "m_sourceFile sh = ''fx.hlsl''" and "m_lastFileTime sh = 10"
  shows "snd (CheckForReload Manager_failing sh n fs_edited)
           = (Suc n, [Log_HotReloading, Log_HotReloadFailed])"
    and "m_lastFileTime (fst (CheckForReload Manager_failing sh n fs_edited)) = 10"
    and "m_sourceFile (fst (CheckForReload Manager_failing sh n fs_edited)) = ''fx.hlsl''"
    and "m_hotReloadEnabled_S (fst (CheckForReload Manager_failing sh n fs_edited))"
  using assms
  by (simp_all add: CheckForReload_def LoadFromFile_def GetFileTime_def Let_def IsValid_def
      Manager_failing_def fs_edited_def fs_empty_def CompiledShader_default_def)

lemma watched_shader_fields:
  "m_hotReloadEnabled_S watched_shader" "m_sourceFile watched_shader = ''fx.hlsl''"
  "m_lastFileTime watched_shader = 10"
  by (simp_all add: watched_shader_def)

lemma GetFileTime_fs_edited: "GetFileTime fs_edited ''fx.hlsl'' = 20"
  by (simp add: GetFileTime_def fs_edited_def fs_empty_def)

theorem reload_only_when_newer_witness:
  "snd (snd (CheckForReload Manager_compiling watched_shader 0 fs_edited))
     = [Log_HotReloading, Log_HotReloadSuccessful] \<and>
   m_lastFileTime (fst (CheckForReload Manager_compiling watched_shader 0 fs_edited)) = 20 \<and>
   snd (snd (CheckForReload Manager_compiling
               (fst (CheckForReload Manager_compiling watched_shader 0 fs_edited)) 1 fs_edited))
     = [] \<and>
   snd (snd (CheckForReload Manager_failing watched_shader 0 fs_edited))
     = [Log_HotReloading, Log_HotReloadFailed] \<and>
   m_lastFileTime (fst (CheckForReload Manager_failing watched_shader 0 fs_edited)) = 10 \<and>
   snd (snd (CheckForReload Manager_failing
               (fst (CheckForReload Manager_failing watched_shader 0 fs_edited)) 1 fs_edited))
     \<noteq> []"
proof -
  let ?r = "CheckForReload Manager_compiling watched_shader 0 fs_edited"
  let ?q = "CheckForReload Manager_failing watched_shader 0 fs_edited"
  have r: "?r = (fst ?r, fst (snd ?r), snd (snd ?r))" by simp
  have q: "?q = (fst ?q, fst (snd ?q), snd (snd ?q))" by simp
  have log_r: "snd (snd ?r) = [Log_HotReloading, Log_HotReloadSuccessful]"
    using reload_compiling [OF watched_shader_fields, of 0] by simp
  have log_q: "snd (snd ?q) = [Log_HotReloading, Log_HotReloadFailed]"
    using reload_failing(1) [OF watched_shader_fields, of 0] by simp
  from reload_only_when_newer [OF r, of Manager_compiling 1] log_r
  have "m_lastFileTime (fst ?r) = 20"
    and "snd (snd (CheckForReload Manager_compiling (fst ?r) 1 fs_edited)) = []"
    by (simp_all add: watched_shader_fields GetFileTime_fs_edited)
  moreover from reload_only_when_newer [OF q, of Manager_failing 1] log_q
  have "m_lastFileTime (fst ?q) = 10"
    and "snd (snd (CheckForReload Manager_failing (fst ?q) 1 fs_edited)) \<noteq> []"
    by (simp_all add: watched_shader_fields)
  ultimately show ?thesis using log_r log_q by simp
qed

text \<open>
  Claim C9 as stated fails: with a manager whose compilation fails, the check of a shader
  last seen at time 10 whose file has time 20 reloads, leaves the last-seen time at 10,
  and the next check on the same file reloads again (the manager is called a second
  time).
\<close>

theorem repeated_failed_reload_counterexample:
  "snd (CheckForReload Manager_failing watched_shader 0 fs_edited)
     = (1, [Log_HotReloading, Log_HotReloadFailed]) \<and>
   m_lastFileTime (fst (CheckForReload Manager_failing watched_shader 0 fs_edited)) = 10 \<and>
   GetFileTime fs_edited ''fx.hlsl'' = 20 \<and>
   snd (CheckForReload Manager_failing
          (fst (CheckForReload Manager_failing watched_shader 0 fs_edited)) 1 fs_edited)
     = (2, [Log_HotReloading, Log_HotReloadFailed])"
proof -
  let ?q = "CheckForReload Manager_failing watched_shader 0 fs_edited"
  note first = reload_failing [OF watched_shader_fields, of 0]
  have "snd (CheckForReload Manager_failing (fst ?q) 1 fs_edited)
          = (Suc 1, [Log_HotReloading, Log_HotReloadFailed])"
    by (rule reload_failing(1) [OF first(4) first(3) first(2)])
  with first GetFileTime_fs_edited show ?thesis by simp
qed

end
